theory Spec2Isabelle
  imports Complex_Main "HOL-Library.Word" "HOL-Library.Log_Nat"
begin

unbundle bit_operations_syntax

section \<open>Bytes, slices and Python values\<close>

text \<open>
  A Python \<open>bytes\<close> object is a list of 8-bit characters, so that the literal
  \<open>b'BZh'\<close> of the source is the literal \<open>''BZh''\<close> here.  Positions and sizes are
  Python integers, hence \<open>int\<close>.
\<close>

type_synonym bytes = "char list"

text \<open>Python's slice \<open>xs[a:b]\<close>: a negative bound counts from the end, every bound is
  clipped to the sequence, and an empty range gives the empty sequence.\<close>

definition slice_bound :: "nat \<Rightarrow> int \<Rightarrow> nat" where
  "slice_bound n i = (if i < 0 then nat (max 0 (int n + i)) else min n (nat i))"

definition py_slice :: "'a list \<Rightarrow> int \<Rightarrow> int \<Rightarrow> 'a list" where
  "py_slice xs a b =
     (let lo = slice_bound (length xs) a; hi = slice_bound (length xs) b
      in take (hi - lo) (drop lo xs))"

text \<open>The exceptions of the module that the model distinguishes.\<close>

datatype error =
    StructError         \<comment> \<open>\<open>struct.error\<close>: the slice does not have the size of the format\<close>
  | UnicodeDecodeError  \<comment> \<open>\<open>.decode("ascii")\<close> on a byte above 127\<close>
  | TypeError
  | ValueError
  | KeyError
  | IndexError
  | AttributeError
  | OSError             \<comment> \<open>a file that cannot be opened or positioned\<close>
  | UnboundLocalError
  | OverflowError
  | GzipClosed          \<comment> \<open>\<open>Exception('Gzipped files should not be closed when using this option')\<close>\<close>
  | NoRadialsFound      \<comment> \<open>\<open>ValueError("No MSG31 records found, cannot read file")\<close>\<close>

text \<open>
  The values held by an attribute map.  A float that came out of a 4-byte \<open>f\<close> field, or a
  literal such as \<open>2.0\<close> that single precision represents exactly, is kept as its IEEE-754
  single-precision bit pattern; its arithmetic is not interpreted.
\<close>

datatype pyval =
    PInt int
  | PReal "32 word"
  | PBytes bytes
  | PArr nat "int list"   \<comment> \<open>\<open>np.frombuffer\<close>: element width in bytes, unsigned big-endian elements\<close>
  | PList "pyval list"

type_synonym attrs = "(string \<times> pyval) list"

definition dict_get :: "('k \<times> 'v) list \<Rightarrow> 'k \<Rightarrow> error + 'v" where
  "dict_get d k = (case map_of d k of None \<Rightarrow> Inl KeyError | Some v \<Rightarrow> Inr v)"

fun dict_set :: "('k \<times> 'v) list \<Rightarrow> 'k \<Rightarrow> 'v \<Rightarrow> ('k \<times> 'v) list" where
  "dict_set [] k v = [(k, v)]"
| "dict_set ((k', v') # d) k v = (if k' = k then (k, v) # d else (k', v') # dict_set d k v)"

section \<open>The structure codec\<close>

datatype fmt_code = Fmt_B | Fmt_H | Fmt_I | Fmt_f | Fmt_b | Fmt_h | Fmt_i | Fmt_s nat

abbreviation "CODE1 \<equiv> Fmt_B"
abbreviation "CODE2 \<equiv> Fmt_H"
abbreviation "INT1 \<equiv> Fmt_B"
abbreviation "INT2 \<equiv> Fmt_H"
abbreviation "INT4 \<equiv> Fmt_I"
abbreviation "REAL4 \<equiv> Fmt_f"
abbreviation "SINT1 \<equiv> Fmt_b"
abbreviation "SINT2 \<equiv> Fmt_h"
abbreviation "SINT4 \<equiv> Fmt_i"

definition RECORD_SIZE :: int where "RECORD_SIZE = 2432"
definition COMPRESSION_RECORD_SIZE :: int where "COMPRESSION_RECORD_SIZE = 12"
definition CONTROL_WORD_SIZE :: int where "CONTROL_WORD_SIZE = 4"

datatype structure_name =
    VOLUME_HEADER | MSG_HEADER | MSG_31 | MSG_1 | MSG_5 | MSG_5_ELEV
  | GENERIC_DATA_BLOCK | VOLUME_DATA_BLOCK | ELEVATION_DATA_BLOCK | RADIAL_DATA_BLOCK

definition VOLUME_HEADER_fields :: "(string \<times> fmt_code) list" where
  "VOLUME_HEADER_fields =
    [(''tape'', Fmt_s 9), (''extension'', Fmt_s 3), (''date'', Fmt_I), (''time'', Fmt_I),
     (''icao'', Fmt_s 4)]"

definition MSG_HEADER_fields :: "(string \<times> fmt_code) list" where
  "MSG_HEADER_fields =
    [(''size'', INT2), (''channels'', INT1), (''type'', INT1), (''seq_id'', INT2),
     (''date'', INT2), (''ms'', INT4), (''segments'', INT2), (''seg_num'', INT2)]"

definition MSG_31_fields :: "(string \<times> fmt_code) list" where
  "MSG_31_fields =
    [(''id'', Fmt_s 4), (''collect_ms'', INT4), (''collect_date'', INT2),
     (''azimuth_number'', INT2), (''azimuth_angle'', REAL4), (''compress_flag'', CODE1),
     (''spare_0'', INT1), (''radial_length'', INT2), (''azimuth_resolution'', CODE1),
     (''radial_spacing'', CODE1), (''elevation_number'', INT1), (''cut_sector'', INT1),
     (''elevation_angle'', REAL4), (''radial_blanking'', CODE1), (''azimuth_mode'', SINT1),
     (''block_count'', INT2), (''block_pointer_1'', INT4), (''block_pointer_2'', INT4),
     (''block_pointer_3'', INT4), (''block_pointer_4'', INT4), (''block_pointer_5'', INT4),
     (''block_pointer_6'', INT4), (''block_pointer_7'', INT4), (''block_pointer_8'', INT4),
     (''block_pointer_9'', INT4), (''block_pointer_10'', INT4)]"

definition MSG_1_fields :: "(string \<times> fmt_code) list" where
  "MSG_1_fields =
    [(''collect_ms'', INT4), (''collect_date'', INT2), (''unambig_range'', SINT2),
     (''azimuth_angle'', CODE2), (''azimuth_number'', INT2), (''radial_status'', CODE2),
     (''elevation_angle'', INT2), (''elevation_number'', INT2), (''sur_range_first'', CODE2),
     (''doppler_range_first'', CODE2), (''sur_range_step'', CODE2),
     (''doppler_range_step'', CODE2), (''sur_nbins'', INT2), (''doppler_nbins'', INT2),
     (''cut_sector_num'', INT2), (''calib_const'', REAL4), (''sur_pointer'', INT2),
     (''vel_pointer'', INT2), (''width_pointer'', INT2), (''doppler_resolution'', CODE2),
     (''vcp'', INT2), (''spare_1'', Fmt_s 8), (''spare_2'', Fmt_s 2), (''spare_3'', Fmt_s 2),
     (''spare_4'', Fmt_s 2), (''nyquist_vel'', SINT2), (''atmos_attenuation'', SINT2),
     (''threshold'', SINT2), (''spot_blank_status'', INT2), (''spare_5'', Fmt_s 32)]"

definition MSG_5_fields :: "(string \<times> fmt_code) list" where
  "MSG_5_fields =
    [(''msg_size'', INT2), (''pattern_type'', CODE2), (''pattern_number'', INT2),
     (''num_cuts'', INT2), (''clutter_map_group'', INT2), (''doppler_vel_res'', CODE1),
     (''pulse_width'', CODE1), (''spare'', Fmt_s 10)]"

definition MSG_5_ELEV_fields :: "(string \<times> fmt_code) list" where
  "MSG_5_ELEV_fields =
    [(''elevation_angle'', CODE2), (''channel_config'', CODE1), (''waveform_type'', CODE1),
     (''super_resolution'', CODE1), (''prf_number'', INT1), (''prf_pulse_count'', INT2),
     (''azimuth_rate'', CODE2), (''ref_thresh'', SINT2), (''vel_thresh'', SINT2),
     (''sw_thresh'', SINT2), (''zdr_thres'', SINT2), (''phi_thres'', SINT2),
     (''rho_thres'', SINT2), (''edge_angle_1'', CODE2), (''dop_prf_num_1'', INT2),
     (''dop_prf_pulse_count_1'', INT2), (''spare_1'', Fmt_s 2), (''edge_angle_2'', CODE2),
     (''dop_prf_num_2'', INT2), (''dop_prf_pulse_count_2'', INT2), (''spare_2'', Fmt_s 2),
     (''edge_angle_3'', CODE2), (''dop_prf_num_3'', INT2), (''dop_prf_pulse_count_3'', INT2),
     (''spare_3'', Fmt_s 2)]"

definition GENERIC_DATA_BLOCK_fields :: "(string \<times> fmt_code) list" where
  "GENERIC_DATA_BLOCK_fields =
    [(''block_type'', Fmt_s 1), (''data_name'', Fmt_s 3), (''reserved'', INT4),
     (''ngates'', INT2), (''first_gate'', SINT2), (''gate_spacing'', SINT2),
     (''thresh'', SINT2), (''snr_thres'', SINT2), (''flags'', CODE1), (''word_size'', INT1),
     (''scale'', REAL4), (''offset'', REAL4)]"

definition VOLUME_DATA_BLOCK_fields :: "(string \<times> fmt_code) list" where
  "VOLUME_DATA_BLOCK_fields =
    [(''block_type'', Fmt_s 1), (''data_name'', Fmt_s 3), (''lrtup'', INT2),
     (''version_major'', INT1), (''version_minor'', INT1), (''lat'', REAL4), (''lon'', REAL4),
     (''height'', SINT2), (''feedhorn_height'', INT2), (''refl_calib'', REAL4),
     (''power_h'', REAL4), (''power_v'', REAL4), (''diff_refl_calib'', REAL4),
     (''init_phase'', REAL4), (''vcp'', INT2), (''spare'', Fmt_s 2)]"

definition ELEVATION_DATA_BLOCK_fields :: "(string \<times> fmt_code) list" where
  "ELEVATION_DATA_BLOCK_fields =
    [(''block_type'', Fmt_s 1), (''data_name'', Fmt_s 3), (''lrtup'', INT2),
     (''atmos'', SINT2), (''refl_calib'', REAL4)]"

definition RADIAL_DATA_BLOCK_fields :: "(string \<times> fmt_code) list" where
  "RADIAL_DATA_BLOCK_fields =
    [(''block_type'', Fmt_s 1), (''data_name'', Fmt_s 3), (''lrtup'', INT2),
     (''unambig_range'', SINT2), (''noise_h'', REAL4), (''noise_v'', REAL4),
     (''nyquist_vel'', SINT2), (''spare'', Fmt_s 2)]"

fun structure_fields :: "structure_name \<Rightarrow> (string \<times> fmt_code) list" where
  "structure_fields VOLUME_HEADER = VOLUME_HEADER_fields"
| "structure_fields MSG_HEADER = MSG_HEADER_fields"
| "structure_fields MSG_31 = MSG_31_fields"
| "structure_fields MSG_1 = MSG_1_fields"
| "structure_fields MSG_5 = MSG_5_fields"
| "structure_fields MSG_5_ELEV = MSG_5_ELEV_fields"
| "structure_fields GENERIC_DATA_BLOCK = GENERIC_DATA_BLOCK_fields"
| "structure_fields VOLUME_DATA_BLOCK = VOLUME_DATA_BLOCK_fields"
| "structure_fields ELEVATION_DATA_BLOCK = ELEVATION_DATA_BLOCK_fields"
| "structure_fields RADIAL_DATA_BLOCK = RADIAL_DATA_BLOCK_fields"

text \<open>\<open>struct.calcsize\<close> and \<open>struct.unpack\<close> for a big-endian format (\<open>">"\<close>: standard
  sizes, no padding).\<close>

fun fmt_size :: "fmt_code \<Rightarrow> nat" where
  "fmt_size Fmt_B = 1"
| "fmt_size Fmt_b = 1"
| "fmt_size Fmt_H = 2"
| "fmt_size Fmt_h = 2"
| "fmt_size Fmt_I = 4"
| "fmt_size Fmt_i = 4"
| "fmt_size Fmt_f = 4"
| "fmt_size (Fmt_s n) = n"

definition calcsize :: "fmt_code list \<Rightarrow> nat" where
  "calcsize cs = sum_list (map fmt_size cs)"

definition uint_be :: "bytes \<Rightarrow> int" where
  "uint_be s = foldl (\<lambda>acc c. acc * 256 + of_char c) 0 s"

definition sint_be :: "bytes \<Rightarrow> int" where
  "sint_be s = (let v = uint_be s; m = 2 ^ (8 * length s)
                in if 2 * v \<ge> m then v - m else v)"

fun unpack_value :: "fmt_code \<Rightarrow> bytes \<Rightarrow> pyval" where
  "unpack_value Fmt_B s = PInt (uint_be s)"
| "unpack_value Fmt_H s = PInt (uint_be s)"
| "unpack_value Fmt_I s = PInt (uint_be s)"
| "unpack_value Fmt_b s = PInt (sint_be s)"
| "unpack_value Fmt_h s = PInt (sint_be s)"
| "unpack_value Fmt_i s = PInt (sint_be s)"
| "unpack_value Fmt_f s = PReal (word_of_int (uint_be s))"
| "unpack_value (Fmt_s n) s = PBytes s"

fun unpack_values :: "fmt_code list \<Rightarrow> bytes \<Rightarrow> pyval list" where
  "unpack_values [] s = []"
| "unpack_values (c # cs) s =
     unpack_value c (take (fmt_size c) s) # unpack_values cs (drop (fmt_size c) s)"

definition struct_unpack :: "fmt_code list \<Rightarrow> bytes \<Rightarrow> error + pyval list" where
  "struct_unpack fmt s =
     (if length s \<noteq> calcsize fmt then Inl StructError else Inr (unpack_values fmt s))"

definition structure_content :: "structure_name \<Rightarrow> string list" where
  "structure_content name = map fst (structure_fields name)"

definition structure_format :: "structure_name \<Rightarrow> fmt_code list" where
  "structure_format name = map snd (structure_fields name)"

definition structure_size :: "structure_name \<Rightarrow> int" where
  "structure_size name = int (calcsize (structure_format name))"

text \<open>\<open>_unpack_structure\<close>: \<open>dict(zip(names, struct.unpack(fmt, string)))\<close>; the field
  names of every structure are distinct, so the dictionary is the zipped list.\<close>

definition unpack_structure :: "bytes \<Rightarrow> structure_name \<Rightarrow> error + attrs" where
  "unpack_structure string name =
     (case struct_unpack (structure_format name) string of
        Inl e \<Rightarrow> Inl e
      | Inr lst \<Rightarrow> Inr (zip (structure_content name) lst))"

section \<open>The memoising unpacker and its store\<close>

text \<open>
  \<open>_unpack_from_buf\<close> keeps two module-level dictionaries, \<open>s_before\<close> (the last slice
  seen per structure) and \<open>dic_before\<close> (the dictionary unpacked from it); both are written
  by one tuple assignment, so the model keeps them as one dictionary of pairs; a missing key
  is the initial \<open>''\<close> entry, which no slice equals.  For \<open>GENERIC_DATA_BLOCK\<close> the entries are
  themselves dictionaries keyed by the product.

  Whether a returned dictionary is the cached object or a copy of it is part of the
  behaviour, so dictionaries live in a store: an address is an index into \<open>heap\<close>, and a
  new dictionary is allocated at the end of the heap.
\<close>

type_synonym addr = nat

record pstate =
  heap :: "attrs list"
  dic_before :: "(structure_name \<times> bytes \<times> addr) list"
  dic_before_generic :: "(string option \<times> bytes \<times> addr) list"
  warnings :: "string list"
  stdout :: "string list"

definition initial_pstate :: pstate where
  "initial_pstate =
     \<lparr>heap = [], dic_before = [], dic_before_generic = [], warnings = [], stdout = []\<rparr>"

definition alloc :: "attrs \<Rightarrow> pstate \<Rightarrow> addr \<times> pstate" where
  "alloc d st = (length (heap st), st\<lparr>heap := heap st @ [d]\<rparr>)"

definition deref :: "pstate \<Rightarrow> addr \<Rightarrow> attrs" where
  "deref st a = heap st ! a"

definition lookup_before ::
  "pstate \<Rightarrow> structure_name \<Rightarrow> string option \<Rightarrow> (bytes \<times> addr) option" where
  "lookup_before st name product =
     (if name \<noteq> GENERIC_DATA_BLOCK then map_of (dic_before st) name
      else map_of (dic_before_generic st) product)"

definition unpack_from_buf ::
  "pstate \<Rightarrow> bytes \<Rightarrow> int \<Rightarrow> structure_name \<Rightarrow> string option \<Rightarrow> error + (addr \<times> pstate)" where
  "unpack_from_buf st buf pos name product =
     (let sz = structure_size name;
          s = py_slice buf pos (pos + sz);
          s_b = map_option fst (lookup_before st name product)
      in if Some s \<noteq> s_b then
           (case unpack_structure s name of
              Inl e \<Rightarrow> Inl e
            | Inr d \<Rightarrow>
                let (dic, st1) = alloc d st in
                if name = GENERIC_DATA_BLOCK then
                  let (cp, st2) = alloc (deref st1 dic) st1
                  in Inr (dic, st2\<lparr>dic_before_generic := dict_set (dic_before_generic st2) product (s, cp)\<rparr>)
                else Inr (dic, st1\<lparr>dic_before := dict_set (dic_before st1) name (s, dic)\<rparr>))
         else
           (case lookup_before st name product of
              None \<Rightarrow> Inl KeyError
            | Some (_, cached) \<Rightarrow>
                if name = GENERIC_DATA_BLOCK then Inr (alloc (deref st cached) st)
                else Inr (cached, st)))"

text \<open>Every cached address points into the heap: Python has no dangling references.\<close>

definition wf_pstate :: "pstate \<Rightarrow> bool" where
  "wf_pstate st \<longleftrightarrow>
     list_all (\<lambda>(n, s, a). a < length (heap st)) (dic_before st) \<and>
     list_all (\<lambda>(p, s, a). a < length (heap st)) (dic_before_generic st)"

definition store :: "pstate \<Rightarrow> addr \<Rightarrow> attrs \<Rightarrow> pstate" where
  "store st a d = st\<lparr>heap := (heap st)[a := d]\<rparr>"

section \<open>The record parser\<close>

text \<open>
  A record is the dictionary \<open>dic\<close> built by \<open>_get_record_from_buf\<close>: its values are
  attribute maps (\<open>header\<close>, \<open>msg_header\<close>, \<open>msg5_header\<close>, one per block tag) or, under
  \<open>cut_parameters\<close>, a list of attribute maps.  A record holds the contents of the
  dictionaries attached to it; the module does not write to a dictionary after attaching it.
\<close>

datatype entry = EDict attrs | EList "attrs list"

type_synonym nrecord = "(string \<times> entry) list"

text \<open>The \<open>moments\<close> argument: \<open>None\<close>, a single string, or a list of strings.\<close>

datatype moments = MNone | MStr string | MList "string list"

definition is_prefix :: "'a list \<Rightarrow> 'a list \<Rightarrow> bool" where
  "is_prefix xs ys \<longleftrightarrow> take (length xs) ys = xs"

text \<open>\<open>xs in ys\<close> for two byte strings or two strings: \<open>xs\<close> occurs in \<open>ys\<close> as a
  contiguous run.\<close>

fun is_substring :: "'a list \<Rightarrow> 'a list \<Rightarrow> bool" where
  "is_substring xs [] \<longleftrightarrow> xs = []"
| "is_substring xs (y # ys) \<longleftrightarrow> is_prefix xs (y # ys) \<or> is_substring xs ys"

definition moments_truthy :: "moments \<Rightarrow> bool" where
  "moments_truthy m = (case m of MNone \<Rightarrow> False | MStr s \<Rightarrow> s \<noteq> [] | MList l \<Rightarrow> l \<noteq> [])"

definition in_moments :: "string \<Rightarrow> moments \<Rightarrow> bool" where
  "in_moments tag m =
     (case m of MNone \<Rightarrow> False | MStr s \<Rightarrow> is_substring tag s | MList l \<Rightarrow> List.member l tag)"

definition as_int :: "pyval \<Rightarrow> error + int" where
  "as_int v = (case v of PInt n \<Rightarrow> Inr n | _ \<Rightarrow> Inl TypeError)"

definition attr_int :: "attrs \<Rightarrow> string \<Rightarrow> error + int" where
  "attr_int d k = (case dict_get d k of Inl e \<Rightarrow> Inl e | Inr v \<Rightarrow> as_int v)"

definition entry_dict :: "nrecord \<Rightarrow> string \<Rightarrow> error + attrs" where
  "entry_dict dic k =
     (case dict_get dic k of Inl e \<Rightarrow> Inl e | Inr (EDict d) \<Rightarrow> Inr d
      | Inr (EList _) \<Rightarrow> Inl TypeError)"

text \<open>
  \<open>warnings.warn(message, category)\<close>: the category must be a subclass of \<open>Warning\<close>;
  \<open>warn\<close> raises \<open>TypeError\<close> when it is given any other object.
\<close>

datatype category = UserWarning | RuntimeWarning | NotAClass pyval

definition warn :: "string \<Rightarrow> category \<Rightarrow> pstate \<Rightarrow> error + pstate" where
  "warn message cat st =
     (case cat of NotAClass _ \<Rightarrow> Inl TypeError
      | _ \<Rightarrow> Inr (st\<lparr>warnings := warnings st @ [message]\<rparr>))"

definition decode_ascii :: "bytes \<Rightarrow> error + string" where
  "decode_ascii s =
     (if list_all (\<lambda>c. (of_char c :: nat) < 128) s then Inr s else Inl UnicodeDecodeError)"

text \<open>\<open>str.isspace\<close> on an ASCII character: tab to carriage return, the four separators
  \<open>0x1c\<close> to \<open>0x1f\<close>, and the space.\<close>

definition isspace :: "char \<Rightarrow> bool" where
  "isspace c \<longleftrightarrow> (let n = of_char c :: nat in (9 \<le> n \<and> n \<le> 13) \<or> (28 \<le> n \<and> n \<le> 32))"

definition strip :: "string \<Rightarrow> string" where
  "strip s = rev (dropWhile isspace (rev (dropWhile isspace s)))"

text \<open>\<open>np.frombuffer(s, ">u1")\<close> and \<open>np.frombuffer(s, ">u2")\<close>; the latter raises
  \<open>ValueError\<close> when the buffer is not a whole number of elements.\<close>

definition frombuffer_u1 :: "bytes \<Rightarrow> pyval" where
  "frombuffer_u1 s = PArr 1 (map of_char s)"

fun u2_elements :: "bytes \<Rightarrow> int list" where
  "u2_elements (a # b # s) = uint_be [a, b] # u2_elements s"
| "u2_elements _ = []"

definition frombuffer_u2 :: "bytes \<Rightarrow> error + pyval" where
  "frombuffer_u2 s = (if odd (length s) then Inl ValueError else Inr (PArr 2 (u2_elements s)))"

definition unsupported_bit_size :: string where
  \<open>unsupported_bit_size = ''Unsupported bit size: %s. Returning array dtype "B"''\<close>

definition unpack_block ::
  "pstate \<Rightarrow> bytes \<Rightarrow> int \<Rightarrow> structure_name \<Rightarrow> string \<Rightarrow> error + ((string \<times> attrs) \<times> pstate)" where
  "unpack_block st buf ptr name block_name =
     (case unpack_from_buf st buf ptr name None of
        Inl e \<Rightarrow> Inl e
      | Inr (dic, st1) \<Rightarrow> Inr ((block_name, deref st1 dic), st1))"

definition get_msg31_data_block ::
  "pstate \<Rightarrow> bytes \<Rightarrow> int \<Rightarrow> moments \<Rightarrow> error + ((string \<times> attrs) \<times> pstate)" where
  "get_msg31_data_block st buf ptr moments =
     (case decode_ascii (py_slice buf (ptr + 1) (ptr + 4)) of
        Inl e \<Rightarrow> Inl e
      | Inr decoded \<Rightarrow>
          let block_name = strip decoded in
          if block_name = ''VOL'' then unpack_block st buf ptr VOLUME_DATA_BLOCK block_name
          else if block_name = ''ELV'' then unpack_block st buf ptr ELEVATION_DATA_BLOCK block_name
          else if block_name = ''RAD'' then unpack_block st buf ptr RADIAL_DATA_BLOCK block_name
          else if List.member [''REF'', ''VEL'', ''SW'', ''ZDR'', ''PHI'', ''RHO'', ''CFP''] block_name then
            if moments_truthy moments \<and> \<not> in_moments block_name moments then Inr ((''None'', []), st)
            else
              (case unpack_from_buf st buf ptr GENERIC_DATA_BLOCK (Some block_name) of
                 Inl e \<Rightarrow> Inl e
               | Inr (dic, st1) \<Rightarrow>
                   (case attr_int (deref st1 dic) ''ngates'' of
                      Inl e \<Rightarrow> Inl e
                    | Inr ngates \<Rightarrow>
                        let ptr2 = ptr + structure_size GENERIC_DATA_BLOCK in
                        (case dict_get (deref st1 dic) ''word_size'' of
                           Inl e \<Rightarrow> Inl e
                         | Inr word_size \<Rightarrow>
                             (case (if word_size = PInt 16 then
                                      (case frombuffer_u2 (py_slice buf ptr2 (ptr2 + ngates * 2)) of
                                         Inl e \<Rightarrow> Inl e | Inr data \<Rightarrow> Inr (data, st1))
                                    else if word_size = PInt 8 then
                                      Inr (frombuffer_u1 (py_slice buf ptr2 (ptr2 + ngates)), st1)
                                    else
                                      (case warn unsupported_bit_size
                                              (NotAClass word_size) st1 of
                                         Inl e \<Rightarrow> Inl e | Inr st2 \<Rightarrow> Inr (PList [], st2))) of
                                Inl e \<Rightarrow> Inl e
                              | Inr (data, st2) \<Rightarrow>
                                  let st3 = store st2 dic (dict_set (deref st2 dic) ''data'' data)
                                  in Inr ((block_name, deref st3 dic), st3)))))
          else Inr ((block_name, []), st))"

definition block_pointers :: "string list" where
  "block_pointers =
     [''block_pointer_1'', ''block_pointer_2'', ''block_pointer_3'', ''block_pointer_4'',
      ''block_pointer_5'', ''block_pointer_6'', ''block_pointer_7'', ''block_pointer_8'',
      ''block_pointer_9'', ''block_pointer_10'']"

text \<open>The loop \<open>for p in block_pointers\<close> of \<open>_get_msg31_from_buf\<close>; \<open>hdr\<close> is the address of
  \<open>msg_31_header\<close>.\<close>

fun msg31_blocks ::
  "pstate \<Rightarrow> bytes \<Rightarrow> addr \<Rightarrow> moments \<Rightarrow> string list \<Rightarrow> nrecord \<Rightarrow> error + (nrecord \<times> pstate)" where
  "msg31_blocks st mbuf hdr moments [] dic = Inr (dic, st)"
| "msg31_blocks st mbuf hdr moments (p # ps) dic =
     (case (case map_of (deref st hdr) p of None \<Rightarrow> Inr 0 | Some v \<Rightarrow> as_int v) of
        Inl e \<Rightarrow> Inl e
      | Inr ptr \<Rightarrow>
          if ptr > 0 then
            (case get_msg31_data_block st mbuf ptr moments of
               Inl e \<Rightarrow> Inl e
             | Inr ((block_name, block_dic), st1) \<Rightarrow>
                 msg31_blocks st1 mbuf hdr moments ps (dict_set dic block_name (EDict block_dic)))
          else msg31_blocks st mbuf hdr moments ps dic)"

definition get_msg31_from_buf ::
  "pstate \<Rightarrow> bytes \<Rightarrow> int \<Rightarrow> nrecord \<Rightarrow> moments \<Rightarrow> error + (int \<times> nrecord \<times> pstate)" where
  "get_msg31_from_buf st buf pos dic moments =
     (case entry_dict dic ''header'' of
        Inl e \<Rightarrow> Inl e
      | Inr header \<Rightarrow>
          (case attr_int header ''size'' of
             Inl e \<Rightarrow> Inl e
           | Inr sz \<Rightarrow>
               let msg_size = sz * 2 - 4;
                   msg_header_size = structure_size MSG_HEADER;
                   new_pos = pos + msg_header_size + msg_size;
                   mbuf = py_slice buf (pos + msg_header_size) new_pos
               in (case unpack_from_buf st mbuf 0 MSG_31 None of
                     Inl e \<Rightarrow> Inl e
                   | Inr (msg_31_header, st1) \<Rightarrow>
                       (case msg31_blocks st1 mbuf msg_31_header moments block_pointers dic of
                          Inl e \<Rightarrow> Inl e
                        | Inr (dic1, st2) \<Rightarrow>
                            Inr (new_pos,
                                 dict_set dic1 ''msg_header'' (EDict (deref st2 msg_31_header)),
                                 st2)))))"

definition get_msg29_from_buf :: "int \<Rightarrow> nrecord \<Rightarrow> error + int" where
  "get_msg29_from_buf pos dic =
     (case entry_dict dic ''header'' of
        Inl e \<Rightarrow> Inl e
      | Inr header \<Rightarrow>
          (case attr_int header ''size'' of
             Inl e \<Rightarrow> Inl e
           | Inr sz \<Rightarrow>
               (case (if sz = 65535 then
                        (case attr_int header ''segments'' of
                           Inl e \<Rightarrow> Inl e
                         | Inr segments \<Rightarrow>
                             (case attr_int header ''seg_num'' of
                                Inl e \<Rightarrow> Inl e
                              | Inr seg_num \<Rightarrow> Inr (push_bit 16 segments OR seg_num)))
                      else Inr sz) of
                  Inl e \<Rightarrow> Inl e
                | Inr msg_size \<Rightarrow>
                    let msg_header_size = structure_size MSG_HEADER
                    in Inr (pos + msg_header_size + msg_size))))"

definition bind :: "error + 'a \<Rightarrow> ('a \<Rightarrow> error + 'b) \<Rightarrow> error + 'b" where
  "bind m f = (case m of Inl e \<Rightarrow> Inl e | Inr x \<Rightarrow> f x)"

text \<open>The float literals of \<open>_get_msg1_from_buf\<close>, as single-precision bit patterns.\<close>

definition float_1 :: "32 word" where "float_1 = 0x3F800000"
definition float_2 :: "32 word" where "float_2 = 0x40000000"
definition float_66 :: "32 word" where "float_66 = 0x42840000"
definition float_129 :: "32 word" where "float_129 = 0x43010000"

definition get_msg1_from_buf ::
  "pstate \<Rightarrow> bytes \<Rightarrow> int \<Rightarrow> nrecord \<Rightarrow> moments \<Rightarrow> error + ((int \<times> nrecord) \<times> pstate)" where
  "get_msg1_from_buf st buf pos dic moments =
     (let msg_header_size = structure_size MSG_HEADER in
      bind (unpack_from_buf st buf (pos + msg_header_size) MSG_1 None) (\<lambda>(h, st1).
      let msg1_header = deref st1 h;
          dic0 = dict_set dic ''msg_header'' (EDict msg1_header) in
      bind (attr_int msg1_header ''sur_nbins'') (\<lambda>sur_nbins.
      bind (attr_int msg1_header ''doppler_nbins'') (\<lambda>doppler_nbins.
      bind (attr_int msg1_header ''sur_range_step'') (\<lambda>sur_step.
      bind (attr_int msg1_header ''doppler_range_step'') (\<lambda>doppler_step.
      bind (attr_int msg1_header ''sur_range_first'') (\<lambda>sur_first.
      bind (attr_int msg1_header ''doppler_range_first'') (\<lambda>doppler_first0.
      let doppler_first = (if doppler_first0 > 2 ^ 15 then doppler_first0 - 2 ^ 16
                           else doppler_first0) in
      bind (attr_int msg1_header ''sur_pointer'') (\<lambda>sur_pointer.
      let dic1 =
            (if sur_pointer \<noteq> 0 \<and> (\<not> moments_truthy moments \<or> in_moments ''REF'' moments) then
               let offset = pos + msg_header_size + sur_pointer;
                   data = frombuffer_u1 (py_slice buf offset (offset + sur_nbins))
               in dict_set dic0 ''REF'' (EDict
                    [(''ngates'', PInt sur_nbins), (''gate_spacing'', PInt sur_step),
                     (''first_gate'', PInt sur_first), (''data'', data),
                     (''scale'', PReal float_2), (''offset'', PReal float_66)])
             else dic0) in
      bind (attr_int msg1_header ''vel_pointer'') (\<lambda>vel_pointer.
      bind (if vel_pointer \<noteq> 0 \<and> (\<not> moments_truthy moments \<or> in_moments ''VEL'' moments) then
              let offset = pos + msg_header_size + vel_pointer;
                  data = frombuffer_u1 (py_slice buf offset (offset + doppler_nbins));
                  vel = [(''ngates'', PInt doppler_nbins), (''gate_spacing'', PInt doppler_step),
                         (''first_gate'', PInt doppler_first), (''data'', data),
                         (''scale'', PReal float_2), (''offset'', PReal float_129)]
              in bind (dict_get msg1_header ''doppler_resolution'') (\<lambda>doppler_resolution.
                 Inr (dict_set dic1 ''VEL'' (EDict
                        (if doppler_resolution = PInt 4 then dict_set vel ''scale'' (PReal float_1)
                         else vel))))
            else Inr dic1) (\<lambda>dic2.
      bind (attr_int msg1_header ''width_pointer'') (\<lambda>width_pointer.
      let dic3 =
            (if width_pointer \<noteq> 0 \<and> (\<not> moments_truthy moments \<or> in_moments ''REF'' moments) then
               let offset = pos + msg_header_size + width_pointer;
                   data = frombuffer_u1 (py_slice buf offset (offset + doppler_nbins))
               in dict_set dic2 ''SW'' (EDict
                    [(''ngates'', PInt doppler_nbins), (''gate_spacing'', PInt doppler_step),
                     (''first_gate'', PInt doppler_first), (''data'', data),
                     (''scale'', PReal float_2), (''offset'', PReal float_129)])
             else dic2)
      in Inr ((pos + RECORD_SIZE, dic3), st1)))))))))))))"

text \<open>
  \<open>_get_msg5_from_buf\<close> may raise \<open>struct.error\<close> half way, and its caller carries on with
  what it had written to \<open>dic\<close> and to the cache until then; so the model returns the record
  and the state in every case, beside the new position or the exception.
\<close>

fun msg5_cuts ::
  "pstate \<Rightarrow> bytes \<Rightarrow> int \<Rightarrow> int list \<Rightarrow> attrs list \<Rightarrow> (attrs list \<times> pstate) \<times> error option" where
  "msg5_cuts st buf pos [] cuts = ((cuts, st), None)"
| "msg5_cuts st buf pos (i # rest) cuts =
     (let pos2 = pos + structure_size MSG_HEADER + structure_size MSG_5
                   + structure_size MSG_5_ELEV * i
      in case unpack_from_buf st buf pos2 MSG_5_ELEV None of
           Inl e \<Rightarrow> ((cuts, st), Some e)
         | Inr (elev, st1) \<Rightarrow> msg5_cuts st1 buf pos rest (cuts @ [deref st1 elev]))"

definition get_msg5_from_buf ::
  "pstate \<Rightarrow> bytes \<Rightarrow> int \<Rightarrow> nrecord \<Rightarrow> (nrecord \<times> pstate) \<times> (error + int)" where
  "get_msg5_from_buf st buf pos dic =
     (case unpack_from_buf st buf (pos + structure_size MSG_HEADER) MSG_5 None of
        Inl e \<Rightarrow> ((dic, st), Inl e)
      | Inr (h, st1) \<Rightarrow>
          let dic1 = dict_set dic ''msg5_header'' (EDict (deref st1 h));
              dic2 = dict_set dic1 ''cut_parameters'' (EList [])
          in (case attr_int (deref st1 h) ''num_cuts'' of
                Inl e \<Rightarrow> ((dic2, st1), Inl e)
              | Inr num_cuts \<Rightarrow>
                  (case msg5_cuts st1 buf pos (map int [0..<nat num_cuts]) [] of
                     ((cuts, st2), Some e) \<Rightarrow>
                       ((dict_set dic2 ''cut_parameters'' (EList cuts), st2), Inl e)
                   | ((cuts, st2), None) \<Rightarrow>
                       ((dict_set dic2 ''cut_parameters'' (EList cuts), st2),
                        Inr (pos + RECORD_SIZE)))))"

text \<open>\<open>_get_record_from_buf\<close>.  The call for a type-1 message is
  \<open>_get_msg1_from_buf(buf, pos, dic)\<close>: it leaves \<open>moments\<close> at its default \<open>None\<close>.\<close>

definition get_record_from_buf ::
  "pstate \<Rightarrow> bytes \<Rightarrow> int \<Rightarrow> moments \<Rightarrow> error + ((int \<times> nrecord) \<times> pstate)" where
  "get_record_from_buf st buf pos moments =
     (case unpack_from_buf st buf pos MSG_HEADER None of
        Inl e \<Rightarrow> Inl e
      | Inr (h, st1) \<Rightarrow>
          let dic = [(''header'', EDict (deref st1 h))] in
          (case dict_get (deref st1 h) ''type'' of
             Inl e \<Rightarrow> Inl e
           | Inr msg_type \<Rightarrow>
               if msg_type = PInt 31 then
                 (case get_msg31_from_buf st1 buf pos dic moments of
                    Inl e \<Rightarrow> Inl e
                  | Inr (new_pos, dic1, st2) \<Rightarrow> Inr ((new_pos, dic1), st2))
               else if msg_type = PInt 5 then
                 (case get_msg5_from_buf st1 buf pos dic of
                    ((dic1, st2), Inr new_pos) \<Rightarrow> Inr ((new_pos, dic1), st2)
                  | ((dic1, st2), Inl StructError) \<Rightarrow>
                      (case warn ''Encountered incomplete MSG5. File may be corrupt.''
                              RuntimeWarning st2 of
                         Inl e \<Rightarrow> Inl e
                       | Inr st3 \<Rightarrow> Inr ((pos + RECORD_SIZE, dic1), st3))
                  | ((dic1, st2), Inl e) \<Rightarrow> Inl e)
               else if msg_type = PInt 29 then
                 (case get_msg29_from_buf pos dic of
                    Inl e \<Rightarrow> Inl e
                  | Inr new_pos \<Rightarrow>
                      (case warn ''Message 29 encountered, not parsing.'' RuntimeWarning st1 of
                         Inl e \<Rightarrow> Inl e
                       | Inr st2 \<Rightarrow> Inr ((new_pos, dic), st2)))
               else if msg_type = PInt 1 then get_msg1_from_buf st1 buf pos dic MNone
               else Inr ((pos + RECORD_SIZE, dic), st1)))"

section \<open>The container layer\<close>

text \<open>Python indexing \<open>xs[i]\<close>: a negative index counts from the end, an index out of range
  raises \<open>IndexError\<close>.\<close>

definition py_index :: "'a list \<Rightarrow> int \<Rightarrow> error + 'a" where
  "py_index xs i =
     (if i < - int (length xs) \<or> int (length xs) \<le> i then Inl IndexError
      else Inr (xs ! nat (if i < 0 then int (length xs) + i else i)))"

text \<open>\<open>xs[a:b]\<close> where \<open>b\<close> may be \<open>None\<close>.\<close>

definition py_slice_opt :: "'a list \<Rightarrow> int \<Rightarrow> int option \<Rightarrow> 'a list" where
  "py_slice_opt xs a b =
     (case b of None \<Rightarrow> py_slice xs a (int (length xs)) | Some e \<Rightarrow> py_slice xs a e)"

definition endswith :: "string \<Rightarrow> string \<Rightarrow> bool" where
  "endswith s suffix \<longleftrightarrow> is_prefix (rev suffix) (rev s)"

text \<open>\<open>np.diff\<close> of a one-dimensional array, and \<open>range(a, b, step)\<close> for a positive step.\<close>

definition np_diff :: "int list \<Rightarrow> int list" where
  "np_diff xs = map (\<lambda>(a, b). b - a) (zip xs (tl xs))"

definition py_range :: "int \<Rightarrow> int \<Rightarrow> int \<Rightarrow> int list" where
  "py_range a b step = map (\<lambda>k. a + step * int k) [0..<nat ((b - a + step - 1) div step)]"

text \<open>A list comprehension whose element expression may raise: the first exception, from
  left to right, is the result.\<close>

fun map_err :: "('a \<Rightarrow> error + 'b) \<Rightarrow> 'a list \<Rightarrow> error + 'b list" where
  "map_err f [] = Inr []"
| "map_err f (x # xs) =
     (case f x of
        Inl e \<Rightarrow> Inl e
      | Inr y \<Rightarrow> (case map_err f xs of Inl e \<Rightarrow> Inl e | Inr ys \<Rightarrow> Inr (y # ys)))"

definition print :: "string \<Rightarrow> pstate \<Rightarrow> pstate" where
  "print line st = st\<lparr>stdout := stdout st @ [line]\<rparr>"

text \<open>
  \<open>re.finditer(pattern, buf)\<close> for a literal, non-empty pattern: the matches are found from
  left to right and do not overlap, so after a match the search resumes behind it.  \<open>skip\<close>
  counts the positions that still lie inside the last match, \<open>i\<close> is the offset of the
  remaining input.
\<close>

fun finditer :: "bytes \<Rightarrow> nat \<Rightarrow> nat \<Rightarrow> bytes \<Rightarrow> int list" where
  "finditer pat skip i [] = []"
| "finditer pat skip i (x # xs) =
     (if skip = 0 \<and> is_prefix pat (x # xs)
      then int i # finditer pat (length pat - 1) (Suc i) xs
      else finditer pat (skip - 1) (Suc i) xs)"

definition get_bzip2_start_indices :: "bytes \<Rightarrow> int list" where
  "get_bzip2_start_indices cbuf =
     (let bzip2_start_pos = finditer ''BZh'' 0 0 cbuf
      in filter (\<lambda>i. is_substring (py_slice cbuf (i + 5) (i + 10)) ''AY&SY'') bzip2_start_pos)"

text \<open>
  Lines 171 to 175 of \<open>decode_file\<close>: the stream starts, without those whose distance to
  the next start (to the end of the buffer for the last one) is not greater than 1000.
\<close>

definition filtered_bzip2_start_pos :: "bytes \<Rightarrow> int list" where
  "filtered_bzip2_start_pos cbuf =
     (let bzip2_start_pos = get_bzip2_start_indices cbuf;
          diffs = np_diff (bzip2_start_pos @ [int (length cbuf)])
      in map snd (filter (\<lambda>(i, j). diffs ! i > 1000) (enumerate 0 bzip2_start_pos)))"

text \<open>
  What lies outside the module is a parameter: the files by name (as \<open>open\<close> and
  \<open>gzip.open\<close> deliver their contents), \<open>bz2.decompress\<close>, and
  \<open>BZ2Decompressor().decompress(data, max_length)\<close>.
\<close>

record env =
  open_rb :: "string \<Rightarrow> error + bytes"
  gzip_open :: "string \<Rightarrow> error + bytes"
  bz2_decompress :: "bytes \<Rightarrow> error + bytes"
  bz2_decompress_max :: "bytes \<Rightarrow> int \<Rightarrow> error + bytes"

record file_handle =
  fh_name :: string
  fh_content :: bytes
  fh_pos :: nat
  fh_closed :: bool

definition fh_read :: "file_handle \<Rightarrow> error + (bytes \<times> file_handle)" where
  "fh_read f =
     (if fh_closed f then Inl ValueError
      else Inr (drop (fh_pos f) (fh_content f),
                f\<lparr>fh_pos := max (fh_pos f) (length (fh_content f))\<rparr>))"

definition fh_read_n :: "file_handle \<Rightarrow> int \<Rightarrow> error + (bytes \<times> file_handle)" where
  "fh_read_n f n =
     (if n < 0 then fh_read f
      else if fh_closed f then Inl ValueError
      else let data = take (nat n) (drop (fh_pos f) (fh_content f))
           in Inr (data, f\<lparr>fh_pos := fh_pos f + length data\<rparr>))"

definition fh_seek :: "file_handle \<Rightarrow> int \<Rightarrow> error + file_handle" where
  "fh_seek f p =
     (if fh_closed f then Inl ValueError
      else if p < 0 then Inl OSError
      else Inr (f\<lparr>fh_pos := nat p\<rparr>))"

definition stream_slices :: "bytes \<Rightarrow> int list \<Rightarrow> bytes list" where
  "stream_slices cbuf bzip2_start_pos =
     (let n = length bzip2_start_pos
      in map (\<lambda>(i, s). py_slice_opt cbuf s
                         (if i + 1 < n then Some (bzip2_start_pos ! (i + 1) - 4) else None))
             (enumerate 0 bzip2_start_pos))"

definition decompress_records :: "env \<Rightarrow> bytes \<Rightarrow> error + bytes" where
  "decompress_records env cbuf =
     (let bzip2_start_pos = get_bzip2_start_indices cbuf
      in bz2_decompress env (concat (stream_slices cbuf bzip2_start_pos)))"

text \<open>\<open>_decompress_records_meta\<close>; \<open>bzip2_read_indices = 'all'\<close> is the list
  \<open>range(len(bzip2_start_pos))\<close>.  A stream that fails to decompress gives an empty buffer
  and a printed line; an index outside \<open>bzip2_start_pos\<close> is read before the \<open>try\<close>.\<close>

fun decompress_records_meta ::
  "env \<Rightarrow> pstate \<Rightarrow> bytes \<Rightarrow> int list \<Rightarrow> int list \<Rightarrow> int \<Rightarrow> bytes list
     \<Rightarrow> error + (bytes list \<times> pstate)" where
  "decompress_records_meta env st cbuf bzip2_start_pos [] max_length buf = Inr (buf, st)"
| "decompress_records_meta env st cbuf bzip2_start_pos (i # rest) max_length buf =
     (case py_index bzip2_start_pos i of
        Inl e \<Rightarrow> Inl e
      | Inr i1 \<Rightarrow>
          (case (if i + 1 < int (length bzip2_start_pos)
                 then (case py_index bzip2_start_pos (i + 1) of
                         Inl e \<Rightarrow> Inl e | Inr v \<Rightarrow> Inr (Some (v - 4)))
                 else Inr None) of
             Inl e \<Rightarrow> Inl e
           | Inr i2 \<Rightarrow>
               (case bz2_decompress_max env (py_slice_opt cbuf i1 i2)
                       (if i > 0 then max_length else - 1) of
                  Inr data \<Rightarrow>
                    decompress_records_meta env st cbuf bzip2_start_pos rest max_length
                      (buf @ [data])
                | Inl e \<Rightarrow>
                    decompress_records_meta env (print ''_decompress_records_meta'' st) cbuf
                      bzip2_start_pos rest max_length (buf @ [[]]))))"

section \<open>The decoder object\<close>

text \<open>
  The attributes of a \<open>NEXRADLevel2File\<close>.  \<open>_buf\<close> is a dictionary of decompressed
  ranges for a bzip2 file and a byte string for a gzip file, hence two fields; an attribute
  that \<open>decode_file\<close> may read before it was ever written is an \<open>option\<close>, \<open>None\<close> while
  unset.  \<open>world\<close> carries the module-level state (the unpacker's cache, the warnings
  and the printed lines) along with the object.  The read mode is one of the strings
  \<open>"all"\<close>, \<open>"all-meta"\<close>, \<open>"min-meta"\<close>; the ranged re-read (a list as read mode) is not
  part of this development.
\<close>

record decoder =
  decode_meta :: bool
  read_mode_attr :: string
  moments_attr :: moments
  fh :: "file_handle option"
  volume_header :: "attrs option"
  bzip2_compression :: "bool option"
  buf_bzip2 :: "((int \<times> int option) \<times> bytes) list"
  buf_gzip :: bytes
  cbuf_attr :: bytes
  bzip2_start_pos :: "int list"
  bzip2_read_indices :: "int list"
  indices :: "int list"
  records :: "nrecord list"
  records_start_pos :: "int list"
  radial_records :: "nrecord list"
  msg_type :: int
  scan_msgs :: "int list list"
  nscans :: int
  scan_startend_pos :: "(int \<times> int option) list"
  vcp :: "nrecord option"
  world :: pstate

definition new_decoder :: "pstate \<Rightarrow> decoder" where
  "new_decoder w =
     \<lparr>decode_meta = False, read_mode_attr = [], moments_attr = MNone, fh = None,
      volume_header = None, bzip2_compression = None, buf_bzip2 = [], buf_gzip = [],
      cbuf_attr = [], bzip2_start_pos = [], bzip2_read_indices = [], indices = [], records = [],
      records_start_pos = [], radial_records = [], msg_type = 0, scan_msgs = [], nscans = 0,
      scan_startend_pos = [], vcp = None, world = w\<rparr>"

text \<open>\<open>r["header"]["type"]\<close>.\<close>

definition header_type :: "nrecord \<Rightarrow> error + pyval" where
  "header_type r = bind (entry_dict r ''header'') (\<lambda>header. dict_get header ''type'')"

definition no_msg5_warning :: string where
  "no_msg5_warning = ''No MSG5 detected. Setting to meaningless data. ''
     @ ''Rethink your life choices and be ready for errors.''
     @ ''Specifically fixed angle data will be missing''"

definition get_vcp :: "decoder \<Rightarrow> error + decoder" where
  "get_vcp self =
     bind (map_err header_type (records self)) (\<lambda>types.
       let msg_5 = map fst (filter (\<lambda>(r, t). t = PInt 5) (zip (records self) types))
       in if length msg_5 \<noteq> 0 then Inr (self\<lparr>vcp := Some (hd msg_5)\<rparr>)
          else bind (warn no_msg5_warning UserWarning (world self)) (\<lambda>w.
                 Inr (self\<lparr>vcp := Some [], world := w\<rparr>)))"

definition read_bzip2 ::
  "env \<Rightarrow> decoder \<Rightarrow> int \<times> int option \<Rightarrow> error + (bytes \<times> decoder)" where
  "read_bzip2 env self startend_pos =
     (case map_of (buf_bzip2 self) startend_pos of
        Some data \<Rightarrow> Inr (data, self)
      | None \<Rightarrow>
          (case fh self of
             None \<Rightarrow> Inl AttributeError
           | Some f \<Rightarrow>
               bind (fh_seek f (fst startend_pos)) (\<lambda>f1.
               bind (case snd startend_pos of
                       None \<Rightarrow> fh_read f1
                     | Some e \<Rightarrow> fh_read_n f1 (e - fst startend_pos)) (\<lambda>(buf, f2).
               bind (decompress_records env buf) (\<lambda>data.
                 Inr (data, self\<lparr>fh := Some f2,
                                  buf_bzip2 := dict_set (buf_bzip2 self) startend_pos data\<rparr>))))))"

definition read_gzip ::
  "decoder \<Rightarrow> (int \<times> int option) option \<Rightarrow> error + (bytes \<times> decoder)" where
  "read_gzip self startend_pos =
     (case fh self of
        None \<Rightarrow> Inl AttributeError
      | Some f \<Rightarrow>
          (case startend_pos of
             None \<Rightarrow>
               bind (fh_read f) (\<lambda>(data, f1).
                 let buf = buf_gzip self @ data
                 in Inr (buf, self\<lparr>buf_gzip := buf, fh := Some f1\<rparr>))
           | Some (start, stop) \<Rightarrow>
               let l = int (length (buf_gzip self)) in
               bind (if stop = None \<or> stop = Some 0 then
                       bind (fh_read f) (\<lambda>(data, f1).
                         Inr (self\<lparr>buf_gzip := buf_gzip self @ data, fh := Some f1\<rparr>))
                     else if l < the stop then
                       bind (fh_read_n f (the stop - l)) (\<lambda>(data, f1).
                         Inr (self\<lparr>buf_gzip := buf_gzip self @ data, fh := Some f1\<rparr>))
                     else Inr self) (\<lambda>self1.
                 Inr (py_slice_opt (buf_gzip self1) start stop, self1))))"

section \<open>Reading the records of the buffers\<close>

text \<open>
  The two \<open>while pos < buf_length\<close> loops of \<open>_read_records\<close>.  Whether they return depends
  on the cursor moving forward, so they are partial functions: \<open>None\<close> is a loop that does
  not return.  \<open>rad_loop\<close> is the inner loop, which stops at the first record with a \<open>RAD\<close>
  block; \<open>record_loop\<close> is the loop over one buffer \<open>b\<close>, the \<open>i\<close>-th of the list.
\<close>

partial_function (option) rad_loop ::
  "pstate \<Rightarrow> bytes \<Rightarrow> moments \<Rightarrow> int \<Rightarrow> nrecord \<Rightarrow> (error + (nrecord \<times> pstate)) option" where
  "rad_loop st b moments pos dic =
     (if pos < int (length b) then
        (case get_record_from_buf st b pos moments of
           Inl e \<Rightarrow> Some (Inl e)
         | Inr ((new_pos, dic1), st1) \<Rightarrow>
             if map_of dic1 ''RAD'' \<noteq> None then Some (Inr (dic1, st1))
             else rad_loop st1 b moments new_pos dic1)
      else Some (Inr (dic, st)))"

declare rad_loop.simps [code]

partial_function (option) record_loop ::
  "env \<Rightarrow> bool \<Rightarrow> decoder \<Rightarrow> nat \<Rightarrow> bytes \<Rightarrow> int \<Rightarrow> (error + decoder) option" where
  "record_loop env bz self i b pos =
     (if pos < int (length b) then
        (case get_record_from_buf (world self) b pos (moments_attr self) of
           Inl e \<Rightarrow> Some (Inl e)
         | Inr ((new_pos, dic), w) \<Rightarrow>
             let self1 = self\<lparr>records_start_pos := records_start_pos self @ [pos], world := w\<rparr> in
             if bz \<and> decode_meta self1 \<and> i > 0 \<and> map_of dic ''RAD'' = None then
               (case decompress_records_meta env w (cbuf_attr self1) (bzip2_start_pos self1)
                       [int i] 10000 [] of
                  Inl e \<Rightarrow> Some (Inl e)
                | Inr (bufs, w1) \<Rightarrow>
                    (case py_index bufs 0 of
                       Inl e \<Rightarrow> Some (Inl e)
                     | Inr b1 \<Rightarrow>
                         (case rad_loop w1 b1 (moments_attr self1) COMPRESSION_RECORD_SIZE dic of
                            None \<Rightarrow> None
                          | Some (Inl e) \<Rightarrow> Some (Inl e)
                          | Some (Inr (dic1, w2)) \<Rightarrow>
                              Some (Inr (self1\<lparr>world := w2,
                                               records := records self1 @ [dic1]\<rparr>)))))
             else
               (case (if bz \<and> decode_meta self1 \<and> i = 0
                      then (case header_type dic of
                              Inl e \<Rightarrow> Inl e
                            | Inr t \<Rightarrow> Inr (\<not> (t = PInt 1 \<or> t = PInt 31 \<or> t = PInt 5)))
                      else Inr False) of
                  Inl e \<Rightarrow> Some (Inl e)
                | Inr skip \<Rightarrow>
                    if skip then record_loop env bz self1 i b new_pos
                    else
                      let self2 = self1\<lparr>records := records self1 @ [dic]\<rparr> in
                      if bz \<and> decode_meta self2 then Some (Inr self2)
                      else record_loop env bz self2 i b new_pos))
      else Some (Inr self))"

declare record_loop.simps [code]

text \<open>The loop \<open>for i, b in enumerate(buf)\<close>.\<close>

fun read_buffers ::
  "env \<Rightarrow> bool \<Rightarrow> decoder \<Rightarrow> nat \<Rightarrow> bytes list \<Rightarrow> (error + decoder) option" where
  "read_buffers env bz self i [] = Some (Inr self)"
| "read_buffers env bz self i (b # rest) =
     (if length b = 0 then
        read_buffers env bz
          (self\<lparr>records := records self @ [[(''header'', EDict [(''type'', PInt 0)])]],
                records_start_pos := records_start_pos self @ [- 1]\<rparr>)
          (Suc i) rest
      else
        (case record_loop env bz self i b (if bz then COMPRESSION_RECORD_SIZE else 0) of
           None \<Rightarrow> None
         | Some (Inl e) \<Rightarrow> Some (Inl e)
         | Some (Inr self1) \<Rightarrow> read_buffers env bz self1 (Suc i) rest))"

text \<open>\<open>_read_records\<close>; a single buffer is the list of that buffer.  \<open>_bzip2_compression\<close> is
  set whenever \<open>decode_file\<close> gets this far.\<close>

datatype bufs = One bytes | Many "bytes list"

definition read_records :: "env \<Rightarrow> decoder \<Rightarrow> bufs \<Rightarrow> (error + decoder) option" where
  "read_records env self buf =
     (case bzip2_compression self of
        None \<Rightarrow> Some (Inl AttributeError)
      | Some bz \<Rightarrow>
          read_buffers env bz (self\<lparr>records := [], records_start_pos := []\<rparr>) 0
            (case buf of One b \<Rightarrow> [b] | Many bs \<Rightarrow> bs))"

section \<open>\<open>decode_file\<close>\<close>

subsection \<open>Opening the source (lines 128 to 161)\<close>

datatype file_arg = FileName string | FileObj file_handle

definition open_source ::
  "env \<Rightarrow> decoder \<Rightarrow> file_arg \<Rightarrow> string \<Rightarrow> moments \<Rightarrow> error + decoder" where
  "open_source env self file_name_or_obj read_mode moments =
     (let self0 = self\<lparr>decode_meta := endswith read_mode ''meta'', read_mode_attr := read_mode,
                        moments_attr := moments\<rparr>
      in case file_name_or_obj of
           FileObj f \<Rightarrow>
             let self1 = self0\<lparr>fh := Some f\<rparr> in
             if fh_closed f then
               (case bzip2_compression self1 of
                  None \<Rightarrow> Inl AttributeError
                | Some True \<Rightarrow>
                    bind (open_rb env (fh_name f)) (\<lambda>content.
                      Inr (self1\<lparr>fh := Some \<lparr>fh_name = fh_name f, fh_content = content,
                                               fh_pos = 0, fh_closed = False\<rparr>\<rparr>))
                | Some False \<Rightarrow> Inl GzipClosed)
             else Inr self1
         | FileName name \<Rightarrow>
             bind (if endswith name ''.gz'' then gzip_open env name else open_rb env name)
               (\<lambda>content.
             let f = \<lparr>fh_name = name, fh_content = content, fh_pos = 0, fh_closed = False\<rparr> in
             bind (fh_read_n f (structure_size VOLUME_HEADER)) (\<lambda>(header_bytes, f1).
             bind (unpack_structure header_bytes VOLUME_HEADER) (\<lambda>header.
             bind (fh_read_n f1 COMPRESSION_RECORD_SIZE) (\<lambda>(compression_record, f2).
             let compression_or_ctm_info =
                   py_slice compression_record CONTROL_WORD_SIZE (CONTROL_WORD_SIZE + 2)
             in Inr (self0\<lparr>fh := Some f2, volume_header := Some header,
                            bzip2_compression := Some (compression_or_ctm_info = ''BZ''),
                            buf_bzip2 := [], buf_gzip := []\<rparr>))))))"

subsection \<open>Getting the buffers (lines 164 to 243)\<close>

text \<open>The loop over \<open>cut_params\<close> that predicts the stream of the first ray of each scan.\<close>

fun expected_indices :: "attrs list \<Rightarrow> int \<Rightarrow> int \<Rightarrow> int list \<Rightarrow> error + int list" where
  "expected_indices [] expected_last_bzip2_index n read_indices = Inr read_indices"
| "expected_indices (scan # rest) expected_last_bzip2_index n read_indices =
     (case dict_get scan ''super_resolution'' of
        Inl e \<Rightarrow> Inl e
      | Inr v \<Rightarrow>
          let expected = expected_last_bzip2_index
                           + (3 + 3 * (if v = PInt 11 \<or> v = PInt 7 then 1 else 0))
          in expected_indices rest expected n
               (if expected < n then read_indices @ [expected] else read_indices))"

definition add_last_index :: string where
  "add_last_index = ''add len(self._bzip2_start_pos)-1''"

definition min_meta_read_indices :: "decoder \<Rightarrow> error + (int list \<times> decoder)" where
  "min_meta_read_indices self =
     (case vcp self of
        None \<Rightarrow> Inl AttributeError
      | Some v \<Rightarrow>
          bind (case map_of v ''cut_parameters'' of
                  None \<Rightarrow> Inr []
                | Some (EList cuts) \<Rightarrow> Inr cuts
                | Some (EDict _) \<Rightarrow> Inl TypeError) (\<lambda>cut_params.
          let n = int (length (bzip2_start_pos self)) in
          bind (if v \<noteq> [] then expected_indices cut_params 0 n [0]
                else Inr (py_range 2 n 3)) (\<lambda>read_indices.
          bind (py_index read_indices (- 1)) (\<lambda>last_index.
            if last_index + 1 \<noteq> n
            then Inr (read_indices @ [n - 1], self\<lparr>world := print add_last_index (world self)\<rparr>)
            else Inr (read_indices, self)))))"

text \<open>Metadata mode on a bzip2 file; the local \<open>bzip2_read_indices\<close> is \<open>None\<close> for
  \<open>'all'\<close>.\<close>

definition meta_bzip2_buffers ::
  "env \<Rightarrow> decoder \<Rightarrow> string \<Rightarrow> (error + (bufs \<times> decoder)) option" where
  "meta_bzip2_buffers env self read_mode =
     (case fh self of
        None \<Rightarrow> Some (Inl AttributeError)
      | Some f \<Rightarrow>
          (case bind (fh_seek f 0) fh_read of
             Inl e \<Rightarrow> Some (Inl e)
           | Inr (content, f1) \<Rightarrow>
               let self1 = self\<lparr>fh := Some f1, cbuf_attr := content,
                                 bzip2_start_pos := filtered_bzip2_start_pos content\<rparr> in
               (case (if read_mode = ''min-meta'' then
                        (case decompress_records_meta env (world self1) (cbuf_attr self1)
                                (bzip2_start_pos self1) [0] 300 [] of
                           Inl e \<Rightarrow> Some (Inl e)
                         | Inr (buf, w) \<Rightarrow>
                             (case read_records env (self1\<lparr>world := w\<rparr>) (Many buf) of
                                None \<Rightarrow> None
                              | Some (Inl e) \<Rightarrow> Some (Inl e)
                              | Some (Inr self2) \<Rightarrow>
                                  Some (bind (get_vcp self2) (\<lambda>self3.
                                        bind (min_meta_read_indices self3) (\<lambda>(read_indices, self4).
                                          Inr (Some read_indices, self4))))))
                      else Some (Inr (None, self1))) of
                  None \<Rightarrow> None
                | Some (Inl e) \<Rightarrow> Some (Inl e)
                | Some (Inr (local_read_indices, self5)) \<Rightarrow>
                    let n = int (length (bzip2_start_pos self5));
                        read_indices = (case local_read_indices of
                                          None \<Rightarrow> map int [0..<nat n] | Some l \<Rightarrow> l)
                    in (case decompress_records_meta env (world self5) (cbuf_attr self5)
                              (bzip2_start_pos self5) read_indices 300 [] of
                          Inl e \<Rightarrow> Some (Inl e)
                        | Inr (buf, w) \<Rightarrow>
                            Some (Inr (Many buf,
                                       self5\<lparr>world := w, bzip2_read_indices := read_indices\<rparr>))))))"

text \<open>The loop of the gzip \<open>min-meta\<close> branch that records the offset of every radial
  record; a partial function, as the loops of \<open>_read_records\<close> are.\<close>

partial_function (option) index_loop ::
  "pstate \<Rightarrow> bytes \<Rightarrow> int \<Rightarrow> int list \<Rightarrow> (error + (int list \<times> pstate)) option" where
  "index_loop st buf i idxs =
     (if i < int (length buf) then
        (case unpack_from_buf st buf i MSG_HEADER None of
           Inl e \<Rightarrow> Some (Inl e)
         | Inr (h, st1) \<Rightarrow>
             (case bind (dict_get (deref st1 h) ''size'') (\<lambda>msg_size.
                   bind (dict_get (deref st1 h) ''type'') (\<lambda>msg_type.
                   if msg_type = PInt 31 then
                     bind (as_int msg_size) (\<lambda>n.
                       Inr (idxs @ [i], n * 2 - 4 + structure_size MSG_HEADER))
                   else if msg_type = PInt 29 then
                     bind (if msg_size = PInt 65535 then
                             bind (attr_int (deref st1 h) ''segments'') (\<lambda>segments.
                             bind (attr_int (deref st1 h) ''seg_num'') (\<lambda>seg_num.
                               Inr (push_bit 16 segments OR seg_num)))
                           else as_int msg_size) (\<lambda>n.
                       Inr (idxs, n + structure_size MSG_HEADER))
                   else Inr (if msg_type = PInt 1 then idxs @ [i] else idxs, RECORD_SIZE))) of
                Inl e \<Rightarrow> Some (Inl e)
              | Inr (idxs1, sz) \<Rightarrow> index_loop st1 buf (i + sz) idxs1))
      else Some (Inr (idxs, st)))"

declare index_loop.simps [code]

definition gzip_indices_step :: int where
  "gzip_indices_step = 30"

text \<open>Metadata mode on a gzip file; the third component is the local \<open>indices_select\<close>.\<close>

definition meta_gzip_buffers ::
  "decoder \<Rightarrow> string \<Rightarrow> (error + (bufs \<times> decoder \<times> int list)) option" where
  "meta_gzip_buffers self read_mode =
     (case read_gzip self None of
        Inl e \<Rightarrow> Some (Inl e)
      | Inr (buf, self1) \<Rightarrow>
          if read_mode = ''min-meta'' then
            (case index_loop (world self1) buf 0 [] of
               None \<Rightarrow> None
             | Some (Inl e) \<Rightarrow> Some (Inl e)
             | Some (Inr (idxs, w)) \<Rightarrow>
                 let self2 = self1\<lparr>indices := idxs, world := w\<rparr>;
                     n = int (length idxs);
                     indices_select = py_range 0 n gzip_indices_step
                 in Some (bind (py_index idxs 0) (\<lambda>first.
                          bind (map_err (\<lambda>i.
                                  bind (py_index idxs i) (\<lambda>a.
                                    if i + 1 < n
                                    then bind (py_index idxs (i + 1)) (\<lambda>b. Inr (py_slice buf a b))
                                    else Inr (py_slice_opt buf a None)))
                                indices_select) (\<lambda>parts.
                            Inr (Many (py_slice buf 0 first # parts), self2, indices_select)))))
          else Some (Inr (One buf, self1, [])))"

definition get_buffers ::
  "env \<Rightarrow> decoder \<Rightarrow> string \<Rightarrow> (error + (bufs \<times> decoder \<times> int list)) option" where
  "get_buffers env self read_mode =
     (if decode_meta self then
        (case bzip2_compression self of
           None \<Rightarrow> Some (Inl AttributeError)
         | Some True \<Rightarrow>
             (case meta_bzip2_buffers env self read_mode of
                None \<Rightarrow> None
              | Some (Inl e) \<Rightarrow> Some (Inl e)
              | Some (Inr (buf, self1)) \<Rightarrow> Some (Inr (buf, self1, [])))
         | Some False \<Rightarrow> meta_gzip_buffers self read_mode)
      else if read_mode = ''all'' then
        (case bzip2_compression self of
           None \<Rightarrow> Some (Inl AttributeError)
         | Some True \<Rightarrow>
             Some (bind (read_bzip2 env self (0, None)) (\<lambda>(buf, self1). Inr (One buf, self1, [])))
         | Some False \<Rightarrow>
             Some (bind (read_gzip self None) (\<lambda>(buf, self1). Inr (One buf, self1, []))))
      else Some (Inl UnboundLocalError))"

subsection \<open>Pulling out the radial records (lines 246 to 264)\<close>

text \<open>
  \<open>msg_types_counts\<close> is the dictionary \<open>{1: c1, 31: c31}\<close>, and
  \<open>max(msg_types_counts, key=msg_types_counts.get)\<close> is the first of its keys 1, 31 with
  the greatest count.  The function returns the object together with the locals
  \<open>radial_records_start_pos\<close> and \<open>msg_types_counts\<close>, which \<open>decode_file\<close> uses further down.
\<close>

definition pull_radial_records ::
  "decoder \<Rightarrow> error + (decoder \<times> int list \<times> int \<times> int)" where
  "pull_radial_records self =
     bind (map_err header_type (records self)) (\<lambda>msg_types.
     let count_1 = int (count_list msg_types (PInt 1));
         count_31 = int (count_list msg_types (PInt 31));
         mt = (if count_31 > count_1 then 31 else 1);
         selected = filter (\<lambda>(i, r). header_type r = Inr (PInt mt))
                      (enumerate 0 (records self))
     in bind (map_err (\<lambda>(i, r).
                if decode_meta self \<and> bzip2_compression self = Some True
                then py_index (bzip2_read_indices self) (int i)
                else py_index (records_start_pos self) (int i)) selected)
          (\<lambda>radial_records_start_pos.
             if length selected = 0 then Inl NoRadialsFound
             else Inr (self\<lparr>radial_records := map snd selected, msg_type := mt\<rparr>,
                       radial_records_start_pos, count_1, count_31)))"

subsection \<open>Grouping the rays into scans and the \<open>min-meta\<close> check (lines 266 to 284)\<close>

definition msg_header_int :: "nrecord \<Rightarrow> string \<Rightarrow> error + int" where
  "msg_header_int m k = bind (entry_dict m ''msg_header'') (\<lambda>h. attr_int h k)"

definition list_min :: "int list \<Rightarrow> int" where
  "list_min xs = foldr min xs (hd xs)"

definition list_max :: "int list \<Rightarrow> int" where
  "list_max xs = foldr max xs (hd xs)"

text \<open>\<open>[np.where(elev_nums == i)[0] for i in range(elev_nums.min(), elev_nums.max()+1)]\<close>
  for a non-empty \<open>elev_nums\<close>.\<close>

definition group_by_elevation :: "int list \<Rightarrow> int list list" where
  "group_by_elevation elev_nums =
     map (\<lambda>i. map (int \<circ> fst) (filter (\<lambda>(k, e). e = i) (enumerate 0 elev_nums)))
       [list_min elev_nums..list_max elev_nums]"

definition group_scans :: "decoder \<Rightarrow> error + decoder" where
  "group_scans self =
     bind (map_err (\<lambda>m. msg_header_int m ''elevation_number'') (radial_records self))
       (\<lambda>elev_nums. Inr (self\<lparr>scan_msgs := group_by_elevation elev_nums\<rparr>))"

text \<open>\<open>any(f(x) for x in xs)\<close>, where evaluating \<open>f\<close> may raise: it stops at the first
  true value.\<close>

fun any_err :: "('a \<Rightarrow> error + bool) \<Rightarrow> 'a list \<Rightarrow> error + bool" where
  "any_err f [] = Inr False"
| "any_err f (x # xs) =
     (case f x of Inl e \<Rightarrow> Inl e | Inr b \<Rightarrow> if b then Inr True else any_err f xs)"

text \<open>\<open>any(i.get('ngates', -1) == 0 for i in record.values())\<close>.\<close>

definition has_zero_ngates :: "nrecord \<Rightarrow> error + bool" where
  "has_zero_ngates r =
     any_err (\<lambda>(k, v). case v of
                          EDict d \<Rightarrow> Inr (map_of d ''ngates'' = Some (PInt 0))
                        | EList _ \<Rightarrow> Inl AttributeError) r"

text \<open>\<open>wrong_indices_step\<close>; for \<open>i = 0\<close> the index \<open>i - 1\<close> is the last element.\<close>

definition wrong_indices_step :: "decoder \<Rightarrow> string \<Rightarrow> int list \<Rightarrow> bool" where
  "wrong_indices_step self read_mode azi_numbers \<longleftrightarrow>
     read_mode = ''min-meta'' \<and> bzip2_compression self \<noteq> Some True \<and>
     list_ex (\<lambda>(azi_i, azi_before). azi_i - azi_before > 0
                                     \<and> azi_i - azi_before \<noteq> gzip_indices_step)
       (zip azi_numbers (last azi_numbers # butlast azi_numbers))"

text \<open>The condition of the \<open>if\<close> in lines 278 to 280, evaluated from left to right.\<close>

definition needs_reopen :: "decoder \<Rightarrow> string \<Rightarrow> int \<times> int \<Rightarrow> error + bool" where
  "needs_reopen self read_mode msg_types_counts =
     bind (map_err (\<lambda>j. msg_header_int j ''azimuth_number'') (radial_records self))
       (\<lambda>azi_numbers.
     if read_mode = ''min-meta'' then
       if min (fst msg_types_counts) (snd msg_types_counts) > 0 then Inr True
       else if wrong_indices_step self read_mode azi_numbers then Inr True
       else if bzip2_compression self = Some True then
         if list_ex (\<lambda>j. length j \<noteq> 1) (scan_msgs self) then Inr True
         else any_err (\<lambda>j. bind (py_index j 0) (\<lambda>first.
                            bind (py_index (radial_records self) first) has_zero_ngates))
                (scan_msgs self)
       else Inr False
     else Inr False)"

subsection \<open>Scan repair and byte ranges (lines 286 to 329)\<close>

text \<open>
  Line 299: \<open>[msgs[-1]] + [j for i, j in enumerate(msgs[:-1][::-1])
  if np.all(np.diff(msgs[-(i+2):]) == 1.)]\<close>, and line 302: \<open>msgs[::-1]\<close>.
\<close>

definition repair_msgs :: "int list \<Rightarrow> error + int list" where
  "repair_msgs msgs =
     bind (py_index msgs (- 1)) (\<lambda>last_msg.
       Inr (rev (last_msg #
                 map snd (filter (\<lambda>(i, j). list_all (\<lambda>d. d = 1)
                                             (np_diff (py_slice_opt msgs (- (int i + 2)) None)))
                            (enumerate 0 (rev (butlast msgs)))))))"

definition removing_scan_msgs :: string where
  "removing_scan_msgs = ''removing scan msgs''"

text \<open>The loop of lines 298 to 302 over the local copy \<open>scan_msgs\<close>: the repaired lists and
  the lines printed.\<close>

fun repair_all :: "int list list \<Rightarrow> pstate \<Rightarrow> error + (int list list \<times> pstate)" where
  "repair_all [] w = Inr ([], w)"
| "repair_all (msgs # rest) w =
     (case repair_msgs msgs of
        Inl e \<Rightarrow> Inl e
      | Inr repaired \<Rightarrow>
          (case repair_all rest (if length repaired \<noteq> length msgs
                                 then print removing_scan_msgs w else w) of
             Inl e \<Rightarrow> Inl e
           | Inr (others, w1) \<Rightarrow> Inr (repaired # others, w1)))"

definition opt_index :: "bool \<Rightarrow> int list \<Rightarrow> int \<Rightarrow> error + int option" where
  "opt_index c xs i = (if c then bind (py_index xs i) (\<lambda>v. Inr (Some v)) else Inr None)"

text \<open>One iteration of the loop of lines 305 to 325.\<close>

definition scan_startend ::
  "decoder \<Rightarrow> string \<Rightarrow> int list list \<Rightarrow> int list \<Rightarrow> int list \<Rightarrow> int
     \<Rightarrow> error + (int \<times> int option)" where
  "scan_startend self read_mode local_scan_msgs radial_records_start_pos indices_select i =
     (let n = int (length local_scan_msgs);
          first = (\<lambda>j. bind (py_index local_scan_msgs (if 0 \<le> j \<and> j < n then j else i))
                         (\<lambda>m. py_index m 0))
      in bind (first (i - 1)) (\<lambda>idx_m1.
         bind (first i) (\<lambda>idx.
         bind (first (i + 1)) (\<lambda>idx_p1.
         bind (py_index radial_records_start_pos idx_m1) (\<lambda>pos_m1.
         bind (py_index radial_records_start_pos idx) (\<lambda>pos.
         bind (py_index radial_records_start_pos idx_p1) (\<lambda>pos_p1.
         if bzip2_compression self = Some True then
           if read_mode = ''min-meta'' then
             bind (if idx \<noteq> idx_m1 then py_index (bzip2_start_pos self) (pos_m1 + 1)
                   else py_index (bzip2_start_pos self) 1) (\<lambda>start_pos.
             bind (opt_index (idx \<noteq> idx_p1) (bzip2_start_pos self) (pos + 1)) (\<lambda>end_pos.
               Inr (start_pos, end_pos)))
           else
             bind (py_index (bzip2_start_pos self) pos) (\<lambda>start_pos.
             bind (opt_index (idx \<noteq> idx_p1) (bzip2_start_pos self) pos_p1) (\<lambda>end_pos.
               Inr (start_pos, end_pos)))
         else
           if read_mode = ''min-meta'' then
             bind (bind (py_index (radial_records self) idx)
                     (\<lambda>r. msg_header_int r ''azimuth_number'')) (\<lambda>azi_num.
             bind (py_index indices_select idx) (\<lambda>sel.
             bind (py_index (indices self) (max 0 (sel - azi_num + 1))) (\<lambda>start_pos.
             bind (bind (py_index (radial_records self) idx_p1)
                     (\<lambda>r. msg_header_int r ''azimuth_number'')) (\<lambda>azi_num_p1.
             bind (if idx \<noteq> idx_p1
                   then bind (py_index indices_select idx_p1) (\<lambda>sel_p1.
                          opt_index True (indices self) (sel_p1 - azi_num_p1 + 1))
                   else Inr None) (\<lambda>end_pos.
               Inr (start_pos, end_pos))))))
           else Inr (pos, if idx \<noteq> idx_p1 then Some pos_p1 else None))))))))"

text \<open>
  Lines 286 to 329.  The attribute \<open>scan_msgs\<close> loses its empty entries; in metadata mode
  the repair works on \<open>copy.deepcopy(self.scan_msgs)\<close>, a local that only feeds
  \<open>scan_startend_pos\<close>.
\<close>

definition finish :: "decoder \<Rightarrow> string \<Rightarrow> int list \<Rightarrow> int list \<Rightarrow> error + decoder" where
  "finish self read_mode radial_records_start_pos indices_select =
     (let self1 = self\<lparr>scan_msgs := filter (\<lambda>j. length j \<noteq> 0) (scan_msgs self)\<rparr>;
          self2 = self1\<lparr>nscans := int (length (scan_msgs self1))\<rparr>
      in bind (if decode_meta self2 then
                 bind (repair_all (scan_msgs self2) (world self2)) (\<lambda>(local_scan_msgs, w).
                 bind (map_err (scan_startend self2 read_mode local_scan_msgs
                                  radial_records_start_pos indices_select)
                         (map int [0..<length local_scan_msgs])) (\<lambda>ranges.
                   Inr (self2\<lparr>scan_startend_pos := ranges, world := w\<rparr>)))
               else Inr self2) (\<lambda>self3.
         if vcp self3 = None then get_vcp self3 else Inr self3))"

subsection \<open>The whole of \<open>decode_file\<close>\<close>

text \<open>Everything up to the decision to decode again: the object, the locals
  \<open>radial_records_start_pos\<close> and \<open>indices_select\<close>, and the value of the condition of
  line 278.\<close>

definition decode_pass ::
  "env \<Rightarrow> decoder \<Rightarrow> file_arg \<Rightarrow> string \<Rightarrow> moments
     \<Rightarrow> (error + (decoder \<times> int list \<times> int list \<times> bool)) option" where
  "decode_pass env self file_name_or_obj read_mode moments =
     (case open_source env self file_name_or_obj read_mode moments of
        Inl e \<Rightarrow> Some (Inl e)
      | Inr self1 \<Rightarrow>
          (case get_buffers env self1 read_mode of
             None \<Rightarrow> None
           | Some (Inl e) \<Rightarrow> Some (Inl e)
           | Some (Inr (buf, self2, indices_select)) \<Rightarrow>
               (case read_records env self2 buf of
                  None \<Rightarrow> None
                | Some (Inl e) \<Rightarrow> Some (Inl e)
                | Some (Inr self3) \<Rightarrow>
                    Some (bind (pull_radial_records self3)
                            (\<lambda>(self4, radial_records_start_pos, msg_types_counts).
                          bind (group_scans self4) (\<lambda>self5.
                          bind (needs_reopen self5 read_mode msg_types_counts) (\<lambda>reopen.
                            Inr (self5, radial_records_start_pos, indices_select, reopen))))))))"

function decode_file ::
  "env \<Rightarrow> decoder \<Rightarrow> file_arg \<Rightarrow> string \<Rightarrow> moments \<Rightarrow> (error + decoder) option" where
  "decode_file env self file_name_or_obj read_mode moments =
     (case decode_pass env self file_name_or_obj read_mode moments of
        None \<Rightarrow> None
      | Some (Inl e) \<Rightarrow> Some (Inl e)
      | Some (Inr (self1, radial_records_start_pos, indices_select, reopen)) \<Rightarrow>
          if reopen then
            let self2 = self1\<lparr>world := print ''reopen'' (world self1)\<rparr> in
            (case fh self2 of
               None \<Rightarrow> Some (Inl AttributeError)
             | Some f \<Rightarrow> decode_file env self2 (FileObj f) ''all-meta'' MNone)
          else Some (finish self1 read_mode radial_records_start_pos indices_select))"
  by pat_completeness auto

termination decode_file
  apply (relation "measure (\<lambda>(env, self, f, read_mode, moments).
                            if read_mode = ''min-meta'' then 1 else 0)")
   apply simp
  apply (auto simp: decode_pass_def needs_reopen_def bind_def
              split: sum.splits option.splits prod.splits if_splits)
  done


section \<open>The query surface\<close>

text \<open>\<open>_msg_nums\<close>: \<open>np.concatenate([self.scan_msgs[i] for i in scans])\<close>, which raises
  \<open>ValueError\<close> for an empty list of arrays.\<close>

definition msg_nums :: "decoder \<Rightarrow> int list \<Rightarrow> error + int list" where
  "msg_nums self scans =
     bind (map_err (py_index (scan_msgs self)) scans) (\<lambda>arrays.
       if arrays = [] then Inl ValueError else Inr (concat arrays))"

text \<open>\<open>_radial_array\<close> for a key whose values are integers.\<close>

definition radial_array :: "decoder \<Rightarrow> int list \<Rightarrow> string \<Rightarrow> error + int list" where
  "radial_array self scans key =
     bind (msg_nums self scans) (\<lambda>nums.
       map_err (\<lambda>i. bind (py_index (radial_records self) i) (\<lambda>r. msg_header_int r key)) nums)"

definition all_scans :: "decoder \<Rightarrow> int list option \<Rightarrow> int list" where
  "all_scans self scans = (case scans of None \<Rightarrow> py_range 0 (nscans self) 1 | Some l \<Rightarrow> l)"

text \<open>
  The 64-bit floats of \<open>get_times\<close>.  A float is the rational number it stands for, and
  every operation rounds its exact result to the nearest number with a significand of 53
  bits, ties to the even significand, as IEEE 754 binary64 does; below \<open>2^-1022\<close> the
  spacing stays \<open>2^-1074\<close>.  Infinities are not modelled: \<open>collect_ms\<close> and \<open>collect_date\<close>
  are fields of 32 and 16 bits.  \<open>exponent x\<close> is the integer \<open>e\<close> with
  \<open>2^e \<le> x < 2^(e+1)\<close> for a positive \<open>x\<close>.
\<close>

definition pow2 :: "int \<Rightarrow> rat" where
  "pow2 e = (if 0 \<le> e then 2 ^ nat e else 1 / 2 ^ nat (- e))"

definition round_half_even :: "rat \<Rightarrow> int" where
  "round_half_even x =
     (let f = \<lfloor>x\<rfloor>; d = x - of_int f
      in if d < 1 / 2 then f else if 1 / 2 < d then f + 1 else if even f then f else f + 1)"

definition exponent :: "rat \<Rightarrow> int" where
  "exponent x =
     (let (p, q) = quotient_of x; e0 = bitlen p - bitlen q
      in if pow2 e0 \<le> x then e0 else e0 - 1)"

definition round64 :: "rat \<Rightarrow> rat" where
  "round64 x =
     (if x = 0 then 0
      else let u = pow2 (max (exponent \<bar>x\<bar> - 52) (- 1074))
           in of_int (round_half_even (x / u)) * u)"

text \<open>The conversion of an integer to a float, as NumPy does for an integer array or a
  Python integer that meets a float.\<close>

definition float_of_int :: "int \<Rightarrow> rat" where
  "float_of_int n = round64 (of_int n)"

text \<open>
  \<open>get_times\<close>.  \<open>secs\<close> is \<open>collect_ms / 1000.0\<close> in 64-bit floats, and so are the offsets
  \<open>secs - int(secs[0]) + (days - days[0]) * 86400\<close>, in which the integers
  \<open>int(secs[0])\<close> and \<open>(days - days[0]) * 86400\<close> are converted to floats.  \<open>int\<close> of a float
  truncates towards zero.  The start time is given in microseconds since 1970-01-01;
  \<open>datetime\<close> raises \<open>OverflowError\<close> outside the years 1 to 9999.
\<close>

definition truncate :: "rat \<Rightarrow> int" where
  "truncate q = (if q < 0 then \<lceil>q\<rceil> else \<lfloor>q\<rfloor>)"

definition get_times :: "decoder \<Rightarrow> int list option \<Rightarrow> error + (int \<times> rat list)" where
  "get_times self scans =
     (let scans1 = all_scans self scans in
      bind (radial_array self scans1 ''collect_date'') (\<lambda>days.
      bind (radial_array self scans1 ''collect_ms'') (\<lambda>ms.
      let secs = map (\<lambda>m. round64 (float_of_int m / 1000)) ms in
      bind (py_index days 0) (\<lambda>day0.
      bind (py_index secs 0) (\<lambda>sec0.
      let offset = (day0 - 1) * 86400 + truncate sec0 in
      if offset div 86400 < - 719162 \<or> 2932896 < offset div 86400 then Inl OverflowError
      else Inr (offset * 1000000,
                map (\<lambda>(s, d). round64 (round64 (s - float_of_int (truncate sec0))
                                         + float_of_int ((d - day0) * 86400)))
                  (zip secs days)))))))"

subsection \<open>\<open>get_data\<close> (lines 680 to 773)\<close>






text \<open>
  Single-precision values.  Their arithmetic is not interpreted: a value is the bit pattern
  read from the file, the conversion of an integer, or a difference or a quotient of two
  values, each rounded to single precision as NumPy does for an unsigned integer array and
  a \<open>float32\<close> scalar.  \<open>np.float32\<close> is applied to \<open>offset\<close> and \<open>scale\<close>, which the parser
  stores as numbers.
\<close>

datatype float32 = Bits "32 word" | Of_int int | Sub32 float32 float32 | Div32 float32 float32

definition np_float32 :: "pyval \<Rightarrow> error + float32" where
  "np_float32 v = (case v of PReal b \<Rightarrow> Inr (Bits b) | PInt n \<Rightarrow> Inr (Of_int n)
                   | _ \<Rightarrow> Inl TypeError)"

text \<open>The loop of lines 734 to 742, which looks at the first ray of each scan, up to the
  two scalars; \<open>None\<close> is the loop running to its end.\<close>

fun find_scale :: "decoder \<Rightarrow> string \<Rightarrow> int list \<Rightarrow> error + (float32 \<times> float32) option" where
  "find_scale self moment [] = Inr None"
| "find_scale self moment (scan # rest) =
     bind (py_index (scan_msgs self) scan) (\<lambda>msgs.
     bind (py_index msgs 0) (\<lambda>msg_num.
     bind (py_index (radial_records self) msg_num) (\<lambda>msg.
       if map_of msg moment \<noteq> None then
         bind (entry_dict msg moment) (\<lambda>m.
         bind (bind (dict_get m ''offset'') np_float32) (\<lambda>offset.
         bind (bind (dict_get m ''scale'') np_float32) (\<lambda>scale.
           Inr (Some (offset, scale)))))
       else find_scale self moment rest)))"


section \<open>The size rule of the record parser, as the specification words it\<close>

definition effective_size :: "attrs \<Rightarrow> error + int" where
  "effective_size header =
     bind (attr_int header ''size'') (\<lambda>sz.
       if sz \<noteq> 65535 then Inr sz
       else bind (attr_int header ''segments'') (\<lambda>segments.
            bind (attr_int header ''seg_num'') (\<lambda>seg_num.
            Inr (push_bit 16 segments OR seg_num))))"

definition size_rule :: "int \<Rightarrow> attrs \<Rightarrow> error + int" where
  "size_rule pos header =
     bind (dict_get header ''type'') (\<lambda>t.
       if t = PInt 31 then
         bind (attr_int header ''size'') (\<lambda>sz.
           Inr (pos + structure_size MSG_HEADER + (sz * 2 - 4)))
       else if t = PInt 29 then
         bind (effective_size header) (\<lambda>e. Inr (pos + structure_size MSG_HEADER + e))
       else Inr (pos + RECORD_SIZE))"

section \<open>Concrete inputs\<close>

definition zeros :: "nat \<Rightarrow> bytes" where
  "zeros n = replicate n (CHR 0x00)"

text \<open>A message header of type 1 and the parser state after unpacking it once.\<close>

definition header_type1 :: bytes where
  "header_type1 = [CHR 0x00, CHR 0x00, CHR 0x00, CHR 0x01] @ zeros 12"

definition header_type1_dict :: attrs where
  "header_type1_dict =
     [(''size'', PInt 0), (''channels'', PInt 0), (''type'', PInt 1), (''seq_id'', PInt 0),
      (''date'', PInt 0), (''ms'', PInt 0), (''segments'', PInt 0), (''seg_num'', PInt 0)]"

definition header_cached :: pstate where
  "header_cached =
     \<lparr>heap = [header_type1_dict], dic_before = [(MSG_HEADER, header_type1, 0)],
      dic_before_generic = [], warnings = [], stdout = []\<rparr>"

text \<open>A generic moment block \<open>REF\<close> with one 8-bit gate, and the parser state after
  unpacking its descriptor once: the dictionary handed out at address 0, its copy in the
  cache at address 1.\<close>

definition generic_ref :: bytes where
  "generic_ref = ''DREF'' @ zeros 4 @ [CHR 0x00, CHR 0x01] @ zeros 9 @ [CHR 0x08] @ zeros 8
                   @ [CHR 0x05]"

definition generic_ref_dict :: attrs where
  "generic_ref_dict =
     [(''block_type'', PBytes ''D''), (''data_name'', PBytes ''REF''), (''reserved'', PInt 0),
      (''ngates'', PInt 1), (''first_gate'', PInt 0), (''gate_spacing'', PInt 0),
      (''thresh'', PInt 0), (''snr_thres'', PInt 0), (''flags'', PInt 0),
      (''word_size'', PInt 8), (''scale'', PReal 0), (''offset'', PReal 0)]"

definition generic_cached :: pstate where
  "generic_cached =
     \<lparr>heap = [generic_ref_dict, generic_ref_dict], dic_before = [],
      dic_before_generic = [(Some ''REF'', take 28 generic_ref, 1)], warnings = [],
      stdout = []\<rparr>"

text \<open>A message of type 29 whose header has \<open>size = 65535\<close>, \<open>segments = 1\<close> and
  \<open>seg_num = 2\<close>.\<close>

definition header_type29 :: bytes where
  "header_type29 = [CHR 0xFF, CHR 0xFF, CHR 0x00, CHR 0x1D] @ zeros 8
                     @ [CHR 0x00, CHR 0x01, CHR 0x00, CHR 0x02]"

definition header_type29_dict :: attrs where
  "header_type29_dict =
     [(''size'', PInt 65535), (''channels'', PInt 0), (''type'', PInt 29), (''seq_id'', PInt 0),
      (''date'', PInt 0), (''ms'', PInt 0), (''segments'', PInt 1), (''seg_num'', PInt 2)]"

definition after_type29 :: pstate where
  "after_type29 =
     \<lparr>heap = [header_type29_dict], dic_before = [(MSG_HEADER, header_type29, 0)],
      dic_before_generic = [], warnings = [''Message 29 encountered, not parsing.''],
      stdout = []\<rparr>"

text \<open>A type-1 message at position 0: \<open>sur_nbins = doppler_nbins = 1\<close>,
  \<open>sur_pointer = 100\<close>, \<open>vel_pointer = 0\<close>, \<open>width_pointer = 101\<close>, followed by one
  reflectivity byte and one spectrum-width byte.\<close>

definition msg1_ref_sw :: bytes where
  "msg1_ref_sw = header_type1 @ zeros 26
      @ [CHR 0x00, CHR 0x01, CHR 0x00, CHR 0x01] @ zeros 6
      @ [CHR 0x00, CHR 0x64, CHR 0x00, CHR 0x00, CHR 0x00, CHR 0x65] @ zeros 58
      @ [CHR 0x05, CHR 0x07]"

definition record_keys :: "error + ((int \<times> nrecord) \<times> pstate) \<Rightarrow> error + string list" where
  "record_keys r = (case r of Inl e \<Rightarrow> Inl e | Inr ((new_pos, dic), st) \<Rightarrow> Inr (map fst dic))"

text \<open>A generic moment block \<open>REF\<close> with \<open>ngates = 1\<close> and \<open>word_size = 32\<close>, followed by
  four payload bytes.\<close>

definition generic_ref_32 :: bytes where
  "generic_ref_32 = ''DREF'' @ zeros 4 @ [CHR 0x00, CHR 0x01] @ zeros 9 @ [CHR 0x20] @ zeros 8
                      @ [CHR 0x00, CHR 0x00, CHR 0x00, CHR 0x05]"

text \<open>
  Bzip2 stream discovery as the specification words it: a valid start is a position \<open>P\<close>
  with \<open>"BZh"\<close> at \<open>P\<close> and \<open>"AY&SY"\<close> at \<open>P + 5\<close>; a start is discarded when its
  distance to the next start (to the end of the buffer for the last start) is undersized.
\<close>

definition occurs_at :: "bytes \<Rightarrow> bytes \<Rightarrow> nat \<Rightarrow> bool" where
  "occurs_at pat buf P \<longleftrightarrow> take (length pat) (drop P buf) = pat"

definition valid_start :: "bytes \<Rightarrow> nat \<Rightarrow> bool" where
  "valid_start cbuf P \<longleftrightarrow> occurs_at ''BZh'' cbuf P \<and> occurs_at ''AY&SY'' cbuf (P + 5)"

definition valid_starts :: "bytes \<Rightarrow> int list" where
  "valid_starts cbuf = map int (filter (valid_start cbuf) [0..<length cbuf])"

definition discard_starts :: "(int \<Rightarrow> bool) \<Rightarrow> int list \<Rightarrow> int \<Rightarrow> int list" where
  "discard_starts undersized S len =
     map snd (filter (\<lambda>(d, s). \<not> undersized d) (zip (np_diff (S @ [len])) S))"

text \<open>Undersized as the specification has it (less than 1000) and as the code has it (at
  most 1000).\<close>

definition claimed_stream_starts :: "bytes \<Rightarrow> int list" where
  "claimed_stream_starts cbuf =
     discard_starts (\<lambda>d. d < 1000) (valid_starts cbuf) (int (length cbuf))"

definition kept_stream_starts :: "bytes \<Rightarrow> int list" where
  "kept_stream_starts cbuf =
     discard_starts (\<lambda>d. d \<le> 1000) (valid_starts cbuf) (int (length cbuf))"

text \<open>Every \<open>"BZh"\<close> of the buffer has at least ten bytes from its first one to the end
  of the buffer, so that the six bytes compared with the stream magic are all there.\<close>

definition magic_complete :: "bytes \<Rightarrow> bool" where
  "magic_complete cbuf \<longleftrightarrow> (\<forall>P. occurs_at ''BZh'' cbuf P \<longrightarrow> P + 10 \<le> length cbuf)"

text \<open>A buffer of \<open>10 + n\<close> bytes that starts with a bzip2 stream magic.\<close>

definition bzip2_stream :: "nat \<Rightarrow> bytes" where
  "bzip2_stream n = ''BZh91AY&SY'' @ zeros n"


text \<open>
  The radial message type as the specification has it: the type among 1 and 31 with the
  greatest count (type 1 on a tie, the first key of \<open>msg_types_counts\<close>), and the records
  of a given header type.
\<close>

definition radial_type :: "pyval list \<Rightarrow> int" where
  "radial_type msg_types =
     (if count_list msg_types (PInt 31) > count_list msg_types (PInt 1) then 31 else 1)"

definition records_of_type :: "int \<Rightarrow> nrecord list \<Rightarrow> nrecord list" where
  "records_of_type t rs = filter (\<lambda>r. header_type r = Inr (PInt t)) rs"

text \<open>
  The corruption repair as the specification words it: walk the index list from end to
  start and stop at the first non-unit step.  \<open>walk_back\<close> works on the reversed list.
\<close>

fun walk_back :: "int list \<Rightarrow> int list" where
  "walk_back (x # y # rest) = (if x - y = 1 then x # walk_back (y # rest) else [x])"
| "walk_back xs = xs"

definition trailing_run :: "int list \<Rightarrow> int list" where
  "trailing_run M = rev (walk_back (rev M))"

text \<open>Auxiliary notions for the proofs about the repair: a list that steps down by one,
  and the same for the first \<open>i + 2\<close> elements of a list.\<close>

fun descending :: "int list \<Rightarrow> bool" where
  "descending (x # y # rest) \<longleftrightarrow> x - y = 1 \<and> descending (y # rest)"
| "descending xs \<longleftrightarrow> True"

definition descending_prefix :: "int list \<Rightarrow> nat \<Rightarrow> bool" where
  "descending_prefix R i \<longleftrightarrow> descending (take (i + 2) R)"

text \<open>
  The last pass of a decode, with the mode it ran in: the second pass when the first one
  asks for a new decode, the first one otherwise.  Its result holds the locals
  \<open>radial_records_start_pos\<close> and \<open>indices_select\<close> from which \<open>scan_startend_pos\<close> is
  computed.
\<close>

definition final_pass ::
  "env \<Rightarrow> decoder \<Rightarrow> file_arg \<Rightarrow> string \<Rightarrow> moments
     \<Rightarrow> string \<times> (error + (decoder \<times> int list \<times> int list \<times> bool)) option" where
  "final_pass env self f read_mode moments =
     (case decode_pass env self f read_mode moments of
        Some (Inr (self1, rsp, sel, True)) \<Rightarrow>
          (case fh self1 of
             None \<Rightarrow> (read_mode, Some (Inl AttributeError))
           | Some h \<Rightarrow>
               (''all-meta'',
                decode_pass env (self1\<lparr>world := print ''reopen'' (world self1)\<rparr>) (FileObj h)
                  ''all-meta'' MNone))
      | r \<Rightarrow> (read_mode, r))"

definition pass_summary ::
  "string \<times> (error + (decoder \<times> int list \<times> int list \<times> bool)) option
     \<Rightarrow> string \<times> (error + (int list list \<times> int list \<times> int list \<times> bool)) option" where
  "pass_summary p =
     (fst p, map_option (map_sum id (\<lambda>(s, rsp, sel, b). (scan_msgs s, rsp, sel, b))) (snd p))"

text \<open>Three records with header types 31, 1 and 31, as \<open>_read_records\<close> leaves them in the
  object.\<close>

definition record_of_type :: "int \<Rightarrow> nrecord" where
  "record_of_type t = [(''header'', EDict [(''type'', PInt t)])]"

definition mixed_records :: decoder where
  "mixed_records = (new_decoder initial_pstate)
     \<lparr>records := [record_of_type 31, record_of_type 1, record_of_type 31],
      records_start_pos := [0, 88, 2520]\<rparr>"

text \<open>
  A gzip file of two concatenated volumes: three type-31 messages of 88 bytes without data
  blocks, with elevation numbers 1, 2 and 1.
\<close>

definition msg31_bare :: "char \<Rightarrow> bytes" where
  "msg31_bare elevation =
     [CHR 0x00, CHR 0x26, CHR 0x00, CHR 0x1F] @ zeros 12
     @ zeros 22 @ [elevation] @ zeros 49"

definition dual_volume_file :: bytes where
  "dual_volume_file = zeros 24 @ zeros 12
     @ msg31_bare (CHR 0x01) @ msg31_bare (CHR 0x02) @ msg31_bare (CHR 0x01)"

definition dual_env :: env where
  "dual_env =
     \<lparr>open_rb = (\<lambda>name. Inl OSError),
      gzip_open = (\<lambda>name. if name = ''dual.gz'' then Inr dual_volume_file else Inl OSError),
      bz2_decompress = (\<lambda>data. Inl OSError),
      bz2_decompress_max = (\<lambda>data n. Inl OSError)\<rparr>"

definition scan_msgs_of :: "(error + decoder) option \<Rightarrow> (error + int list list) option" where
  "scan_msgs_of r = map_option (map_sum id scan_msgs) r"


text \<open>
  The start time of \<open>get_times\<close> in microseconds since 1970-01-01: as the claim has it, with
  the fraction of \<open>collect_ms[0] / 1000\<close>, and with whole seconds only; and the offsets of
  the rays, \<open>secs - floor(secs[0]) + (days - days[0]) * 86400\<close> with
  \<open>secs = collect_ms / 1000\<close>, in 64-bit floats and in exact arithmetic.
\<close>

definition claimed_start_time :: "int \<Rightarrow> int \<Rightarrow> int" where
  "claimed_start_time day0 ms0 = (day0 - 1) * 86400 * 1000000 + ms0 * 1000"

definition whole_seconds_start_time :: "int \<Rightarrow> int \<Rightarrow> int" where
  "whole_seconds_start_time day0 ms0 = ((day0 - 1) * 86400 + ms0 div 1000) * 1000000"

definition secs_of :: "int \<Rightarrow> rat" where
  "secs_of m = round64 (float_of_int m / 1000)"

definition ray_offsets :: "int list \<Rightarrow> int list \<Rightarrow> rat list" where
  "ray_offsets days ms =
     map (\<lambda>(m, d). round64 (round64 (secs_of m - float_of_int \<lfloor>secs_of (hd ms)\<rfloor>)
                              + float_of_int ((d - hd days) * 86400))) (zip ms days)"

definition exact_ray_offsets :: "int list \<Rightarrow> int list \<Rightarrow> rat list" where
  "exact_ray_offsets days ms =
     map (\<lambda>(m, d). of_int m / 1000 - of_int \<lfloor>of_int (hd ms) / (1000 :: rat)\<rfloor>
                      + of_int ((d - hd days) * 86400)) (zip ms days)"

text \<open>A decoded volume of one scan with two rays, collected on day 1 at 1500 ms and on
  day 2 at 250 ms.\<close>

definition ray_at :: "int \<Rightarrow> int \<Rightarrow> nrecord" where
  "ray_at day ms =
     [(''header'', EDict [(''type'', PInt 31)]),
      (''msg_header'', EDict [(''collect_ms'', PInt ms), (''collect_date'', PInt day)])]"

definition two_rays :: decoder where
  "two_rays = (new_decoder initial_pstate)
     \<lparr>radial_records := [ray_at 1 1500, ray_at 2 250], msg_type := 31,
      scan_msgs := [[0, 1]], nscans := 1\<rparr>"

text \<open>The same with the first ray collected at 86399999 ms, one millisecond before
  midnight: 86399.999 is not a 64-bit float.\<close>

definition late_rays :: decoder where
  "late_rays = (new_decoder initial_pstate)
     \<lparr>radial_records := [ray_at 1 86399999, ray_at 2 250], msg_type := 31,
      scan_msgs := [[0, 1]], nscans := 1\<rparr>"


text \<open>
  One decode without the recursive call, and a decode in mode \<open>min-meta\<close> with at most one
  further decode, in mode \<open>all-meta\<close>, which is a single pass.
\<close>

definition single_pass ::
  "env \<Rightarrow> decoder \<Rightarrow> file_arg \<Rightarrow> string \<Rightarrow> moments \<Rightarrow> (error + decoder) option" where
  "single_pass env self f read_mode moments =
     (case decode_pass env self f read_mode moments of
        None \<Rightarrow> None
      | Some (Inl e) \<Rightarrow> Some (Inl e)
      | Some (Inr (self1, rsp, sel, reopen)) \<Rightarrow> Some (finish self1 read_mode rsp sel))"


text \<open>
  The masked array of the claim, \<open>(raw - offset) / scale\<close> in single precision with the
  positions of \<open>raw \<le> 1\<close> masked, and the integer array under the same mask; a ray that lacks
  the moment; the first ray of a scan.
\<close>

definition scaled :: "int \<Rightarrow> float32 \<Rightarrow> float32 \<Rightarrow> float32" where
  "scaled raw offset scale = Div32 (Sub32 (Of_int raw) offset) scale"




definition first_ray :: "decoder \<Rightarrow> int \<Rightarrow> error + nrecord" where
  "first_ray self scan =
     bind (py_index (scan_msgs self) scan) (\<lambda>msgs.
     bind (py_index msgs 0) (\<lambda>msg_num. py_index (radial_records self) msg_num))"



text \<open>
  A record of type 31 of elevation 1 with one data block, \<open>REF\<close>: two gates of 8 bits with
  the values 5 and 0, scale 2.0 and offset 66.0.  Two volumes of one scan of two rays: in
  \<open>mixed.gz\<close> the first ray has no data block and the second has \<open>REF\<close>, in \<open>scaled.gz\<close> it
  is the other way round.
\<close>

definition msg31_ref :: bytes where
  "msg31_ref =
     [CHR 0x00, CHR 0x35, CHR 0x00, CHR 0x1F] @ zeros 12
     @ zeros 22 @ [CHR 0x01] @ zeros 9 @ [CHR 0x00, CHR 0x00, CHR 0x00, CHR 0x48] @ zeros 36
     @ ''DREF'' @ zeros 4 @ [CHR 0x00, CHR 0x02] @ zeros 8 @ [CHR 0x00, CHR 0x08]
     @ [CHR 0x40, CHR 0x00, CHR 0x00, CHR 0x00] @ [CHR 0x42, CHR 0x84, CHR 0x00, CHR 0x00]
     @ [CHR 0x05, CHR 0x00]"

definition mixed_file :: bytes where
  "mixed_file = zeros 24 @ zeros 12 @ msg31_bare (CHR 0x01) @ msg31_ref"

definition scaled_file :: bytes where
  "scaled_file = zeros 24 @ zeros 12 @ msg31_ref @ msg31_bare (CHR 0x01)"

definition two_ray_env :: env where
  "two_ray_env =
     \<lparr>open_rb = (\<lambda>name. Inl OSError),
      gzip_open = (\<lambda>name. if name = ''mixed.gz'' then Inr mixed_file
                           else if name = ''scaled.gz'' then Inr scaled_file
                           else Inl OSError),
      bz2_decompress = (\<lambda>data. Inl OSError),
      bz2_decompress_max = (\<lambda>data n. Inl OSError)\<rparr>"

definition decoded :: "string \<Rightarrow> decoder" where
  "decoded name =
     (case decode_file two_ray_env (new_decoder initial_pstate) (FileName name) ''all'' MNone of
        Some (Inr d) \<Rightarrow> d
      | _ \<Rightarrow> new_decoder initial_pstate)"
section \<open>Properties\<close>

subsection \<open>The memoising unpacker\<close>

text \<open>
  Claim C5, as stated: on a cache hit the unpacker returns a copy of the cached map, never
  the cached object, so that writing to the returned map leaves later hits unchanged.
  This fails for \<open>MSG_HEADER\<close>: the first unpack of \<open>header_type1\<close> caches the dictionary
  at address 0, the second unpack of the same bytes returns address 0 again, and after a
  write to that dictionary the next hit returns the written contents.
\<close>

theorem unpack_hit_returns_cached_object:
  "unpack_from_buf initial_pstate header_type1 0 MSG_HEADER None = Inr (0, header_cached) \<and>
   lookup_before header_cached MSG_HEADER None = Some (header_type1, 0) \<and>
   unpack_from_buf header_cached header_type1 0 MSG_HEADER None = Inr (0, header_cached) \<and>
   unpack_from_buf (store header_cached 0 [(''type'', PInt 99)]) header_type1 0 MSG_HEADER None
     = Inr (0, store header_cached 0 [(''type'', PInt 99)]) \<and>
   deref (store header_cached 0 [(''type'', PInt 99)]) 0 \<noteq> deref header_cached 0"
  by code_simp

text \<open>
  Claim C5, amended: on a cache hit for \<open>GENERIC_DATA_BLOCK\<close> the unpacker returns a
  newly allocated dictionary with the contents of the cached one, the cache entry stays as
  it was, and a write to the returned dictionary does not reach the cached one; on a cache
  hit for any other structure it returns the cached dictionary itself and changes nothing.
\<close>

theorem unpack_from_buf_hit:
  assumes wf: "wf_pstate st"
    and hit: "lookup_before st name product
                = Some (py_slice buf pos (pos + structure_size name), cached)"
  shows "if name = GENERIC_DATA_BLOCK
         then (\<exists>st'. unpack_from_buf st buf pos name product = Inr (length (heap st), st')
                \<and> length (heap st) \<noteq> cached
                \<and> deref st' (length (heap st)) = deref st cached
                \<and> lookup_before st' name product = lookup_before st name product
                \<and> (\<forall>d. deref (store st' (length (heap st)) d) cached = deref st cached))
         else unpack_from_buf st buf pos name product = Inr (cached, st)"
proof (cases "name = GENERIC_DATA_BLOCK")
  case True
  from hit True have "map_of (dic_before_generic st) product
      = Some (py_slice buf pos (pos + structure_size name), cached)"
    by (simp add: lookup_before_def)
  then have "(product, py_slice buf pos (pos + structure_size name), cached)
      \<in> set (dic_before_generic st)"
    by (rule map_of_SomeD)
  with wf have lt: "cached < length (heap st)"
    by (auto simp: wf_pstate_def list_all_iff)
  show ?thesis using True hit lt
    by (simp add: unpack_from_buf_def Let_def alloc_def deref_def store_def lookup_before_def
        nth_append)
next
  case False
  then show ?thesis using hit
    by (simp add: unpack_from_buf_def Let_def)
qed

theorem unpack_from_buf_hit_witness:
  "wf_pstate header_cached \<and>
   lookup_before header_cached MSG_HEADER None
     = Some (py_slice header_type1 0 (0 + structure_size MSG_HEADER), 0) \<and>
   unpack_from_buf header_cached header_type1 0 MSG_HEADER None = Inr (0, header_cached) \<and>
   wf_pstate generic_cached \<and>
   lookup_before generic_cached GENERIC_DATA_BLOCK (Some ''REF'')
     = Some (py_slice generic_ref 0 (0 + structure_size GENERIC_DATA_BLOCK), 1) \<and>
   (\<exists>st'. unpack_from_buf generic_cached generic_ref 0 GENERIC_DATA_BLOCK (Some ''REF'')
            = Inr (2, st') \<and> deref st' 2 = generic_ref_dict)"
proof -
  have wf1: "wf_pstate header_cached" by code_simp
  have hit1: "lookup_before header_cached MSG_HEADER None
     = Some (py_slice header_type1 0 (0 + structure_size MSG_HEADER), 0)" by code_simp
  have wf2: "wf_pstate generic_cached" by code_simp
  have hit2: "lookup_before generic_cached GENERIC_DATA_BLOCK (Some ''REF'')
     = Some (py_slice generic_ref 0 (0 + structure_size GENERIC_DATA_BLOCK), 1)" by code_simp
  have len: "length (heap generic_cached) = 2" and old: "deref generic_cached 1 = generic_ref_dict"
    by (simp_all add: generic_cached_def deref_def)
  from unpack_from_buf_hit[OF wf1 hit1]
  have r1: "unpack_from_buf header_cached header_type1 0 MSG_HEADER None = Inr (0, header_cached)"
    by simp
  from unpack_from_buf_hit[OF wf2 hit2] len old
  have r2: "\<exists>st'. unpack_from_buf generic_cached generic_ref 0 GENERIC_DATA_BLOCK (Some ''REF'')
            = Inr (2, st') \<and> deref st' 2 = generic_ref_dict"
    by auto
  from wf1 hit1 r1 wf2 hit2 r2 show ?thesis by blast
qed

subsection \<open>The cursor of the record parser\<close>

lemma entry_dict_header [simp]: "entry_dict [(''header'', EDict d)] ''header'' = Inr d"
  by (simp add: entry_dict_def dict_get_def)

lemma msg31_new_pos:
  assumes "get_msg31_from_buf st buf pos [(''header'', EDict header)] moments
             = Inr (new_pos, dic, st')"
  shows "\<exists>sz. attr_int header ''size'' = Inr sz
           \<and> new_pos = pos + structure_size MSG_HEADER + (sz * 2 - 4)"
  using assms
  by (auto simp: get_msg31_from_buf_def Let_def split: sum.splits prod.splits)

lemma msg29_new_pos:
  assumes "get_msg29_from_buf pos [(''header'', EDict header)] = Inr new_pos"
  shows "\<exists>e. effective_size header = Inr e \<and> new_pos = pos + structure_size MSG_HEADER + e"
  using assms
  by (auto simp: get_msg29_from_buf_def effective_size_def bind_def Let_def
      split: sum.splits if_splits)

lemma msg1_new_pos:
  assumes "get_msg1_from_buf st buf pos dic moments = Inr ((new_pos, dic'), st')"
  shows "new_pos = pos + RECORD_SIZE"
  using assms
  by (auto simp: get_msg1_from_buf_def bind_def Let_def split: sum.splits prod.splits if_splits)

lemma msg5_new_pos:
  assumes "get_msg5_from_buf st buf pos dic = ((dic', st'), Inr new_pos)"
  shows "new_pos = pos + RECORD_SIZE"
  using assms
  by (auto simp: get_msg5_from_buf_def Let_def split: sum.splits prod.splits option.splits)

text \<open>
  Claim C3: whenever \<open>_get_record_from_buf\<close> returns a record that starts at \<open>pos\<close>, the
  new position is the one the size rule gives for the message header read at \<open>pos\<close>:
  \<open>pos + sizeof(MSG_HEADER) + (size * 2 - 4)\<close> for type 31,
  \<open>pos + sizeof(MSG_HEADER) + effective_size\<close> for type 29, where the effective size is
  \<open>size\<close> unless \<open>size = 65535\<close> and \<open>(segments << 16) | seg_num\<close> then, and
  \<open>pos + RECORD_SIZE\<close> for type 1, type 5 and every other type.
\<close>

theorem cursor_advance:
  assumes "get_record_from_buf st buf pos moments = Inr ((new_pos, dic), st')"
  shows "\<exists>h st1. unpack_from_buf st buf pos MSG_HEADER None = Inr (h, st1)
           \<and> size_rule pos (deref st1 h) = Inr new_pos"
proof -
  from assms obtain h st1 where u: "unpack_from_buf st buf pos MSG_HEADER None = Inr (h, st1)"
    by (auto simp: get_record_from_buf_def split: sum.splits)
  from assms u obtain t where t: "dict_get (deref st1 h) ''type'' = Inr t"
    by (auto simp: get_record_from_buf_def Let_def split: sum.splits)
  have "size_rule pos (deref st1 h) = Inr new_pos"
  proof (cases "t = PInt 31")
    case True
    with assms u t obtain dic1 st2 where
      "get_msg31_from_buf st1 buf pos [(''header'', EDict (deref st1 h))] moments
         = Inr (new_pos, dic1, st2)"
      by (auto simp: get_record_from_buf_def Let_def split: sum.splits)
    from msg31_new_pos[OF this] show ?thesis using t True
      by (auto simp: size_rule_def bind_def)
  next
    case n31: False
    show ?thesis
    proof (cases "t = PInt 5")
      case True
      with assms u t n31 show ?thesis
        by (auto simp: get_record_from_buf_def Let_def size_rule_def bind_def warn_def
            split: sum.splits prod.splits error.splits dest: msg5_new_pos)
    next
      case n5: False
      show ?thesis
      proof (cases "t = PInt 29")
        case True
        with assms u t n31 n5
        have "get_msg29_from_buf pos [(''header'', EDict (deref st1 h))] = Inr new_pos"
          by (auto simp: get_record_from_buf_def Let_def warn_def split: sum.splits)
        from msg29_new_pos[OF this] show ?thesis using t True
          by (auto simp: size_rule_def bind_def)
      next
        case n29: False
        show ?thesis
        proof (cases "t = PInt 1")
          case True
          with assms u t n31 n5 n29
          have "get_msg1_from_buf st1 buf pos [(''header'', EDict (deref st1 h))] MNone
                  = Inr ((new_pos, dic), st')"
            by (auto simp: get_record_from_buf_def Let_def)
          from msg1_new_pos[OF this] show ?thesis using t True
            by (auto simp: size_rule_def bind_def)
        next
          case False
          with assms u t n31 n5 n29 show ?thesis
            by (auto simp: get_record_from_buf_def Let_def size_rule_def bind_def)
        qed
      qed
    qed
  qed
  with u show ?thesis by blast
qed

theorem cursor_advance_witness:
  "get_record_from_buf initial_pstate header_type29 0 MNone
     = Inr ((65554, [(''header'', EDict header_type29_dict)]), after_type29) \<and>
   (\<exists>h st1. unpack_from_buf initial_pstate header_type29 0 MSG_HEADER None = Inr (h, st1)
      \<and> size_rule 0 (deref st1 h) = Inr 65554)"
proof -
  have run: "get_record_from_buf initial_pstate header_type29 0 MNone
     = Inr ((65554, [(''header'', EDict header_type29_dict)]), after_type29)"
    by code_simp
  from cursor_advance[OF run] run show ?thesis by blast
qed

subsection \<open>The moment filter of a type-1 message\<close>

text \<open>
  Claim C1 at its failing inputs.  The message \<open>msg1_ref_sw\<close> has a reflectivity and a
  spectrum-width payload and no velocity payload.  Decoded by \<open>_get_record_from_buf\<close> with
  the filter \<open>['VEL']\<close> it still gets \<open>REF\<close> and \<open>SW\<close>, because the filter is not handed on
  to \<open>_get_msg1_from_buf\<close>.  In \<open>_get_msg1_from_buf\<close> itself the filter \<open>['SW']\<close> drops the
  \<open>SW\<close> block and the filter \<open>['REF']\<close> keeps it: the test for \<open>SW\<close> reads \<open>'REF' in moments\<close>.
\<close>

theorem msg1_filter_at_failing_inputs:
  "record_keys (get_record_from_buf initial_pstate msg1_ref_sw 0 (MList [''VEL'']))
     = Inr [''header'', ''msg_header'', ''REF'', ''SW''] \<and>
   record_keys (get_msg1_from_buf initial_pstate msg1_ref_sw 0 [] (MList [''SW'']))
     = Inr [''msg_header''] \<and>
   record_keys (get_msg1_from_buf initial_pstate msg1_ref_sw 0 [] (MList [''REF'']))
     = Inr [''msg_header'', ''REF'', ''SW'']"
  by code_simp

text \<open>The first of these inputs once more, on its own: decoded through the record parser
  with the filter \<open>['VEL']\<close>, the type-1 message keeps \<open>REF\<close> and \<open>SW\<close>.\<close>

theorem msg1_filter_ignored_by_record_parser:
  "record_keys (get_record_from_buf initial_pstate msg1_ref_sw 0 (MList [''VEL'']))
     = Inr [''header'', ''msg_header'', ''REF'', ''SW'']"
  using msg1_filter_at_failing_inputs by simp

subsection \<open>A moment block of unsupported word size\<close>

text \<open>
  Claim C8 at its failing input: a \<open>REF\<close> block with \<open>word_size = 32\<close>.  The call
  \<open>warnings.warn(message, dic["word_size"])\<close> passes the word size as the warning category
  and raises \<open>TypeError\<close>: no warning is emitted and no block is returned.
\<close>

theorem unsupported_word_size_raises:
  "get_msg31_data_block initial_pstate generic_ref_32 0 MNone = Inl TypeError"
  by code_simp

subsection \<open>Bzip2 stream discovery\<close>

lemma filter_upt_Suc_shift:
  "filter Q [0..<Suc n] = (if Q 0 then [0] else []) @ map Suc (filter (Q \<circ> Suc) [0..<n])"
proof -
  have "[0..<Suc n] = 0 # map Suc [0..<n]"
    by (simp add: upt_conv_Cons map_Suc_upt del: upt_Suc)
  then show ?thesis by (simp add: filter_map del: upt_Suc)
qed

lemma finditer_BZh_gen:
  assumes "\<forall>k < skip. \<not> occurs_at ''BZh'' xs k"
  shows "finditer ''BZh'' skip i xs
           = map (\<lambda>k. int (i + k)) (filter (occurs_at ''BZh'' xs) [0..<length xs])"
  using assms
proof (induction xs arbitrary: skip i)
  case Nil
  then show ?case by simp
next
  case (Cons x xs)
  have shift: "occurs_at ''BZh'' (x # xs) \<circ> Suc = occurs_at ''BZh'' xs"
    by (auto simp: occurs_at_def fun_eq_iff)
  have pre: "is_prefix ''BZh'' (x # xs) = occurs_at ''BZh'' (x # xs) 0"
    by (simp add: is_prefix_def occurs_at_def)
  have expand: "filter (occurs_at ''BZh'' (x # xs)) [0..<Suc (length xs)]
      = (if occurs_at ''BZh'' (x # xs) 0 then [0] else [])
        @ map Suc (filter (occurs_at ''BZh'' xs) [0..<length xs])"
    using filter_upt_Suc_shift[of "occurs_at ''BZh'' (x # xs)" "length xs"] shift by simp
  show ?case
  proof (cases "skip = 0 \<and> occurs_at ''BZh'' (x # xs) 0")
    case True
    then have m: "take (Suc (Suc (Suc 0))) (x # xs) = ''BZh''"
      by (simp add: occurs_at_def eval_nat_numeral)
    then obtain r where xs: "xs = CHR ''Z'' # CHR ''h'' # r"
      by (cases xs; cases "tl xs") auto
    have "\<forall>k < 2. \<not> occurs_at ''BZh'' xs k"
    proof (intro allI impI)
      fix k :: nat assume "k < 2"
      then consider "k = 0" | "k = 1" by linarith
      then show "\<not> occurs_at ''BZh'' xs k"
        by cases (auto simp: occurs_at_def xs eval_nat_numeral)
    qed
    from Cons.IH[OF this, of "Suc i"] True show ?thesis
      by (simp add: pre expand o_def numeral_2_eq_2 del: upt_Suc)
  next
    case False
    have no0: "\<not> occurs_at ''BZh'' (x # xs) 0"
    proof (cases "skip = 0")
      case True with False show ?thesis by simp
    next
      case False with Cons.prems show ?thesis by simp
    qed
    have "\<forall>k < skip - 1. \<not> occurs_at ''BZh'' xs k"
    proof (intro allI impI)
      fix k assume "k < skip - 1"
      then have "Suc k < skip" by simp
      with Cons.prems have "\<not> occurs_at ''BZh'' (x # xs) (Suc k)" by blast
      then show "\<not> occurs_at ''BZh'' xs k" by (simp add: occurs_at_def)
    qed
    from Cons.IH[OF this, of "Suc i"] False no0 show ?thesis
      by (simp add: pre expand o_def del: upt_Suc)
  qed
qed

lemma finditer_BZh:
  "finditer ''BZh'' 0 0 cbuf = map int (filter (occurs_at ''BZh'' cbuf) [0..<length cbuf])"
  using finditer_BZh_gen[of 0 cbuf 0] by simp


lemma is_prefix_length: "is_prefix zs ys \<Longrightarrow> length zs \<le> length ys"
proof -
  assume "is_prefix zs ys"
  then have "length (take (length zs) ys) = length zs" by (simp add: is_prefix_def)
  then show ?thesis by simp
qed

lemma is_substring_length: "is_substring zs ys \<Longrightarrow> length zs \<le> length ys"
proof (induction ys)
  case Nil
  then show ?case by simp
next
  case (Cons a ys)
  from Cons.prems have "is_prefix zs (a # ys) \<or> is_substring zs ys" by simp
  then show ?case
  proof
    assume "is_prefix zs (a # ys)"
    then show ?thesis by (rule is_prefix_length)
  next
    assume "is_substring zs ys"
    with Cons.IH show ?thesis by simp
  qed
qed

lemma is_substring_same_length:
  assumes "length xs = length ys"
  shows "is_substring xs ys \<longleftrightarrow> xs = ys"
proof (cases ys)
  case Nil
  with assms show ?thesis by simp
next
  case (Cons y ys')
  have "\<not> is_substring xs ys'"
  proof
    assume "is_substring xs ys'"
    then have "length xs \<le> length ys'" by (rule is_substring_length)
    with assms Cons show False by simp
  qed
  moreover have "is_prefix xs ys \<longleftrightarrow> xs = ys"
    using assms by (auto simp: is_prefix_def)
  ultimately show ?thesis using Cons by simp
qed

lemma py_slice_inside:
  assumes "a + n \<le> length xs"
  shows "py_slice xs (int a) (int a + int n) = take n (drop a xs)"
proof -
  have "nat (int a + int n) = a + n" by simp
  with assms show ?thesis
    by (simp add: py_slice_def slice_bound_def Let_def min_def del: of_nat_add)
qed

lemma start_indices_eq_valid_starts:
  assumes "\<forall>P. occurs_at ''BZh'' cbuf P \<longrightarrow> P + 10 \<le> length cbuf"
  shows "get_bzip2_start_indices cbuf = valid_starts cbuf"
proof -
  have "filter (\<lambda>P. is_substring (py_slice cbuf (int P + 5) (int P + 10)) ''AY&SY'')
          (filter (occurs_at ''BZh'' cbuf) [0..<length cbuf])
        = filter (valid_start cbuf) [0..<length cbuf]"
    unfolding filter_filter
  proof (rule filter_cong[OF refl])
    fix P assume "P \<in> set [0..<length cbuf]"
    show "(occurs_at ''BZh'' cbuf P \<and> is_substring (py_slice cbuf (int P + 5) (int P + 10)) ''AY&SY'')
            = valid_start cbuf P"
    proof (cases "occurs_at ''BZh'' cbuf P")
      case True
      with assms have len: "(P + 5) + length ''AY&SY'' \<le> length cbuf" by auto
      have sl: "py_slice cbuf (int P + 5) (int P + 10) = take (length ''AY&SY'') (drop (P + 5) cbuf)"
        using py_slice_inside[OF len] by (simp add: add.assoc)
      have "length (take (length ''AY&SY'') (drop (P + 5) cbuf)) = length ''AY&SY''"
        using len by simp
      then have "is_substring (take (length ''AY&SY'') (drop (P + 5) cbuf)) ''AY&SY''
                   \<longleftrightarrow> take (length ''AY&SY'') (drop (P + 5) cbuf) = ''AY&SY''"
        by (rule is_substring_same_length)
      with True show ?thesis
        unfolding sl valid_start_def occurs_at_def by blast
    next
      case False
      then show ?thesis by (simp add: valid_start_def)
    qed
  qed
  then show ?thesis
    by (simp add: get_bzip2_start_indices_def finditer_BZh valid_starts_def filter_map o_def)
qed

lemma enumerate_filter_nth:
  "length ds = length sp \<Longrightarrow>
   map snd (filter (\<lambda>(i, j). Q ((pre @ ds) ! i)) (enumerate (length pre) sp))
     = map snd (filter (\<lambda>(d, s). Q d) (zip ds sp))"
proof (induction ds sp arbitrary: pre rule: list_induct2)
  case Nil
  then show ?case by simp
next
  case (Cons d ds s sp)
  from Cons.IH[of "pre @ [d]"] show ?case by (simp add: nth_append)
qed

lemma length_np_diff: "length (np_diff (xs @ [y])) = length xs"
  by (simp add: np_diff_def)

lemma keep_by_index_eq_discard:
  "map snd (filter (\<lambda>(i, j). np_diff (S @ [len]) ! i > 1000) (enumerate 0 S))
     = discard_starts (\<lambda>d. d \<le> 1000) S len"
  using enumerate_filter_nth[of "np_diff (S @ [len])" S "\<lambda>d. d > 1000" "[]"]
  by (simp add: discard_starts_def length_np_diff not_le)

lemma filtered_starts_kept:
  assumes "\<forall>P. occurs_at ''BZh'' cbuf P \<longrightarrow> P + 10 \<le> length cbuf"
  shows "filtered_bzip2_start_pos cbuf = kept_stream_starts cbuf"
  by (simp add: filtered_bzip2_start_pos_def Let_def start_indices_eq_valid_starts[OF assms]
      keep_by_index_eq_discard kept_stream_starts_def)

lemma occurs_bzip2_stream: "occurs_at ''BZh'' (bzip2_stream n) P \<longleftrightarrow> P = 0"
proof (cases P)
  case 0
  then show ?thesis by (simp add: occurs_at_def bzip2_stream_def)
next
  case (Suc k)
  define r where "r = ''Zh91AY&SY'' @ zeros n"
  have s: "bzip2_stream n = CHR ''B'' # r" by (simp add: bzip2_stream_def r_def)
  have notin: "CHR ''B'' \<notin> set r" by (auto simp: r_def zeros_def)
  have "\<not> occurs_at ''BZh'' (bzip2_stream n) (Suc k)"
  proof
    assume "occurs_at ''BZh'' (bzip2_stream n) (Suc k)"
    then have t: "take (length ''BZh'') (drop k r) = ''BZh''" by (simp add: occurs_at_def s)
    then have ne: "drop k r \<noteq> []" by auto
    then have k: "k < length r" by simp
    from t ne have "hd (drop k r) = CHR ''B''" by (cases "drop k r") auto
    with k have "r ! k = CHR ''B''" by (simp add: hd_drop_conv_nth)
    with k notin show False using nth_mem by metis
  qed
  with Suc show ?thesis by simp
qed

lemma filter_eq_0: "0 < n \<Longrightarrow> filter (\<lambda>P. P = 0) [0..<n] = [0::nat]"
  by (cases n) (simp_all add: filter_upt_Suc_shift o_def del: upt_Suc)

lemma valid_starts_bzip2_stream: "valid_starts (bzip2_stream n) = [0]"
proof -
  have "valid_start (bzip2_stream n) = (\<lambda>P. P = 0)"
  proof
    fix P show "valid_start (bzip2_stream n) P = (P = 0)"
      by (cases "P = 0") (simp_all add: valid_start_def occurs_bzip2_stream,
          simp add: occurs_at_def bzip2_stream_def)
  qed
  then show ?thesis by (simp add: valid_starts_def filter_eq_0 bzip2_stream_def)
qed

lemma length_bzip2_stream: "length (bzip2_stream n) = 10 + n"
  by (simp add: bzip2_stream_def zeros_def)

text \<open>
  Claim C2, as stated: the starts kept are the valid starts whose distance to the next start
  is not less than 1000.  A buffer of exactly 1000 bytes with one stream start at position 0
  refutes it: the specification's rule keeps the start, the code drops it.
\<close>

theorem stream_of_1000_bytes:
  "filtered_bzip2_start_pos (bzip2_stream 990) = [] \<and>
   claimed_stream_starts (bzip2_stream 990) = [0]"
proof -
  have "\<forall>P. occurs_at ''BZh'' (bzip2_stream 990) P \<longrightarrow> P + 10 \<le> length (bzip2_stream 990)"
    by (simp add: occurs_bzip2_stream length_bzip2_stream)
  then have "filtered_bzip2_start_pos (bzip2_stream 990) = kept_stream_starts (bzip2_stream 990)"
    by (rule filtered_starts_kept)
  then show ?thesis
    by (simp add: kept_stream_starts_def claimed_stream_starts_def valid_starts_bzip2_stream
        length_bzip2_stream discard_starts_def np_diff_def)
qed

text \<open>
  Claim C2, amended: in a buffer where every \<open>"BZh"\<close> has at least ten bytes from its
  first one to the end of the buffer (\<open>magic_complete\<close>), the list computed by \<open>decode_file\<close> is the ordered
  list of valid starts after discarding every start whose distance to the next start (to
  the end of the buffer for the last start) is at most 1000.
\<close>

theorem filtered_starts_amended:
  assumes "magic_complete cbuf"
  shows "filtered_bzip2_start_pos cbuf = kept_stream_starts cbuf"
  using assms unfolding magic_complete_def by (rule filtered_starts_kept)

theorem filtered_starts_amended_witness:
  "magic_complete (bzip2_stream 991) \<and>
   filtered_bzip2_start_pos (bzip2_stream 991) = kept_stream_starts (bzip2_stream 991) \<and>
   kept_stream_starts (bzip2_stream 991) = [0]"
proof -
  have h: "magic_complete (bzip2_stream 991)"
    by (simp add: magic_complete_def occurs_bzip2_stream length_bzip2_stream)
  have "kept_stream_starts (bzip2_stream 991) = [0]"
    by (simp add: kept_stream_starts_def valid_starts_bzip2_stream
        length_bzip2_stream discard_starts_def np_diff_def)
  with h filtered_starts_amended[OF h] show ?thesis by blast
qed

subsection \<open>Choosing the radial records\<close>


lemma map_err_Inl: "map_err f xs = Inl e \<Longrightarrow> \<exists>x \<in> set xs. f x = Inl e"
  by (induction xs) (auto split: sum.splits)

lemma py_index_Inl: "py_index xs i = Inl e \<Longrightarrow> e = IndexError"
  by (auto simp: py_index_def Let_def split: if_splits)

lemma enumerate_filter_snd:
  "map snd (filter (\<lambda>(i, r). Q r) (enumerate n xs)) = filter Q xs"
  by (induction xs arbitrary: n) auto

text \<open>
  Claim C9: after parsing, with \<open>msg_types\<close> the header types of the records, the decoder
  takes as \<open>msg_type\<close> the type among 1 and 31 whose count is not below the other's, takes
  as \<open>radial_records\<close> exactly the records of that type, and raises the fatal error for
  missing radials if and only if that list is empty.
\<close>

theorem radial_selection:
  assumes types: "map_err header_type (records self) = Inr msg_types"
  shows "(radial_type msg_types = 1 \<or> radial_type msg_types = 31)
       \<and> count_list msg_types (PInt 1) \<le> count_list msg_types (PInt (radial_type msg_types))
       \<and> count_list msg_types (PInt 31) \<le> count_list msg_types (PInt (radial_type msg_types))
       \<and> (pull_radial_records self = Inl NoRadialsFound
            \<longleftrightarrow> records_of_type (radial_type msg_types) (records self) = [])
       \<and> (\<forall>self1 start_pos counts.
             pull_radial_records self = Inr (self1, start_pos, counts)
             \<longrightarrow> msg_type self1 = radial_type msg_types
               \<and> radial_records self1 = records_of_type (radial_type msg_types) (records self))"
proof -
  define t where "t = radial_type msg_types"
  define selected where
    "selected = filter (\<lambda>(i, r). header_type r = Inr (PInt t)) (enumerate 0 (records self))"
  have sel: "map snd selected = records_of_type t (records self)"
    unfolding selected_def records_of_type_def by (rule enumerate_filter_snd)
  have mt: "(if int (count_list msg_types (PInt 31)) > int (count_list msg_types (PInt 1))
             then 31 else 1) = t"
    by (simp add: t_def radial_type_def)
  have pull: "pull_radial_records self =
      bind (map_err (\<lambda>(i, r).
                if decode_meta self \<and> bzip2_compression self = Some True
                then py_index (bzip2_read_indices self) (int i)
                else py_index (records_start_pos self) (int i)) selected)
          (\<lambda>radial_records_start_pos.
             if length selected = 0 then Inl NoRadialsFound
             else Inr (self\<lparr>radial_records := map snd selected, msg_type := t\<rparr>,
                       radial_records_start_pos, int (count_list msg_types (PInt 1)),
                       int (count_list msg_types (PInt 31))))"
  proof (cases "count_list msg_types (PInt 1) < count_list msg_types (PInt 31)")
    case True
    then have "t = 31" by (simp add: t_def radial_type_def)
    then show ?thesis
      unfolding pull_radial_records_def types selected_def bind_def Let_def
      using True by (simp cong: sum.case_cong if_cong)
  next
    case False
    then have "t = 1" by (simp add: t_def radial_type_def)
    then show ?thesis
      unfolding pull_radial_records_def types selected_def bind_def Let_def
      using False by (simp cong: sum.case_cong if_cong)
  qed
  have c1: "t = 1 \<or> t = 31" by (simp add: t_def radial_type_def)
  have c2: "count_list msg_types (PInt 1) \<le> count_list msg_types (PInt t)"
    by (simp add: t_def radial_type_def)
  have c3: "count_list msg_types (PInt 31) \<le> count_list msg_types (PInt t)"
    by (simp add: t_def radial_type_def)
  have c4: "pull_radial_records self = Inl NoRadialsFound
              \<longleftrightarrow> records_of_type t (records self) = []"
  proof
    assume npf: "pull_radial_records self = Inl NoRadialsFound"
    show "records_of_type t (records self) = []"
    proof (rule ccontr)
      assume "records_of_type t (records self) \<noteq> []"
      with sel have "selected \<noteq> []" by auto
      with npf pull
      have "map_err (\<lambda>(i, r).
                if decode_meta self \<and> bzip2_compression self = Some True
                then py_index (bzip2_read_indices self) (int i)
                else py_index (records_start_pos self) (int i)) selected
            = Inl NoRadialsFound"
        by (simp add: bind_def split: sum.splits)
      from map_err_Inl[OF this] show False
        by (auto split: if_splits dest: py_index_Inl)
    qed
  next
    assume "records_of_type t (records self) = []"
    with sel have "selected = []" by simp
    then show "pull_radial_records self = Inl NoRadialsFound"
      by (simp add: pull bind_def)
  qed
  have c5: "\<forall>self1 start_pos counts.
             pull_radial_records self = Inr (self1, start_pos, counts)
             \<longrightarrow> msg_type self1 = t \<and> radial_records self1 = records_of_type t (records self)"
    using sel by (auto simp: pull bind_def split: sum.splits if_splits)
  from c1 c2 c3 c4 c5 show ?thesis unfolding t_def by blast
qed

theorem radial_selection_witness:
  "map_err header_type (records mixed_records) = Inr [PInt 31, PInt 1, PInt 31]
   \<and> radial_type [PInt 31, PInt 1, PInt 31] = 31
   \<and> records_of_type 31 (records mixed_records) = [record_of_type 31, record_of_type 31]
   \<and> pull_radial_records mixed_records \<noteq> Inl NoRadialsFound
   \<and> pull_radial_records mixed_records
       = Inr (mixed_records\<lparr>radial_records := [record_of_type 31, record_of_type 31],
                             msg_type := 31\<rparr>, [0, 2520], 1, 2)"
proof -
  have h: "map_err header_type (records mixed_records) = Inr [PInt 31, PInt 1, PInt 31]"
    by code_simp
  have t: "radial_type [PInt 31, PInt 1, PInt 31] = 31"
    by code_simp
  have r: "records_of_type 31 (records mixed_records) = [record_of_type 31, record_of_type 31]"
    by code_simp
  have p: "pull_radial_records mixed_records
       = Inr (mixed_records\<lparr>radial_records := [record_of_type 31, record_of_type 31],
                             msg_type := 31\<rparr>, [0, 2520], 1, 2)"
    by code_simp
  from radial_selection[OF h] h t r p show ?thesis by simp
qed

subsection \<open>The passes of \<open>decode_file\<close>\<close>

lemma reopen_only_min_meta:
  "decode_pass env self f read_mode moments = Some (Inr (self1, rsp, sel, True))
     \<Longrightarrow> read_mode = ''min-meta''"
  by (auto simp: decode_pass_def needs_reopen_def bind_def
      split: sum.splits option.splits prod.splits if_splits)

lemma other_modes_single_pass:
  assumes "read_mode \<noteq> ''min-meta''"
  shows "decode_file env self f read_mode moments = single_pass env self f read_mode moments"
proof (cases "decode_pass env self f read_mode moments")
  case None
  then show ?thesis by (simp add: single_pass_def)
next
  case (Some r)
  show ?thesis
  proof (cases r)
    case (Inl e)
    with Some show ?thesis by (simp add: single_pass_def)
  next
    case (Inr t)
    obtain self1 rsp sel reopen where t: "t = (self1, rsp, sel, reopen)" by (cases t) auto
    with Some Inr assms reopen_only_min_meta[of env self f read_mode moments self1 rsp sel]
    have "\<not> reopen" by auto
    with Some Inr t show ?thesis by (simp add: single_pass_def)
  qed
qed

lemma decode_file_final_pass:
  "decode_file env self f read_mode moments =
     (case final_pass env self f read_mode moments of
        (mode, None) \<Rightarrow> None
      | (mode, Some (Inl e)) \<Rightarrow> Some (Inl e)
      | (mode, Some (Inr (self0, rsp, sel, reopen))) \<Rightarrow> Some (finish self0 mode rsp sel))"
proof (cases "decode_pass env self f read_mode moments")
  case None
  then show ?thesis by (simp add: final_pass_def)
next
  case (Some r)
  show ?thesis
  proof (cases r)
    case (Inl e)
    with Some show ?thesis by (simp add: final_pass_def)
  next
    case (Inr t)
    obtain self1 rsp sel reopen where t: "t = (self1, rsp, sel, reopen)" by (cases t) auto
    show ?thesis
    proof (cases reopen)
      case False
      with Some Inr t show ?thesis by (simp add: final_pass_def)
    next
      case True
      show ?thesis
      proof (cases "fh self1")
        case None
        with Some Inr t True show ?thesis by (simp add: final_pass_def Let_def)
      next
        case (Some h)
        have "decode_file env (self1\<lparr>world := print ''reopen'' (world self1)\<rparr>) (FileObj h)
                ''all-meta'' MNone
              = single_pass env (self1\<lparr>world := print ''reopen'' (world self1)\<rparr>) (FileObj h)
                  ''all-meta'' MNone"
          by (rule other_modes_single_pass) simp
        with \<open>decode_pass env self f read_mode moments = Some r\<close> Inr t True Some
        show ?thesis
          by (simp add: final_pass_def Let_def single_pass_def
                   split: option.splits sum.splits prod.splits)
      qed
    qed
  qed
qed

lemma final_pass_Inr:
  assumes "final_pass env self f read_mode moments = (mode, Some (Inr (self0, rsp, sel, reopen)))"
  shows "\<not> reopen
       \<and> (\<exists>self' f' moments'. decode_pass env self' f' mode moments'
                                 = Some (Inr (self0, rsp, sel, reopen)))"
proof (cases "decode_pass env self f read_mode moments")
  case None
  with assms show ?thesis by (simp add: final_pass_def)
next
  case (Some r)
  show ?thesis
  proof (cases r)
    case (Inl e)
    with Some assms show ?thesis by (simp add: final_pass_def)
  next
    case (Inr t)
    obtain self1 rsp1 sel1 reopen1 where t: "t = (self1, rsp1, sel1, reopen1)" by (cases t) auto
    show ?thesis
    proof (cases reopen1)
      case False
      with Some Inr t assms show ?thesis by (auto simp: final_pass_def)
    next
      case True
      with Some Inr t assms obtain h where h: "fh self1 = Some h"
        and m: "mode = ''all-meta''"
        and p: "decode_pass env (self1\<lparr>world := print ''reopen'' (world self1)\<rparr>) (FileObj h)
                  ''all-meta'' MNone = Some (Inr (self0, rsp, sel, reopen))"
        by (auto simp: final_pass_def split: option.splits)
      have "\<not> reopen"
      proof
        assume "reopen"
        with p reopen_only_min_meta[of env _ _ "''all-meta''" MNone self0 rsp sel]
        show False by auto
      qed
      with p m show ?thesis by blast
    qed
  qed
qed

subsection \<open>The repair of concatenated volumes\<close>

lemma np_diff_snoc:
  "ys \<noteq> [] \<Longrightarrow> np_diff (ys @ [a]) = np_diff ys @ [a - last ys]"
proof (induction ys)
  case Nil then show ?case by simp
next
  case (Cons y ys)
  then show ?case by (cases ys) (auto simp: np_diff_def)
qed

lemma unit_steps_rev: "list_all (\<lambda>d. d = 1) (np_diff (rev L)) \<longleftrightarrow> descending L"
proof (induction L rule: descending.induct)
  case (1 x y rest)
  have "np_diff (rev (y # rest) @ [x]) = np_diff (rev (y # rest)) @ [x - last (rev (y # rest))]"
    by (rule np_diff_snoc) simp
  with 1 show ?case by auto
qed (simp_all add: np_diff_def)

lemma tail_slice:
  assumes "0 < k" "k \<le> length msgs"
  shows "py_slice_opt msgs (- int k) None = rev (take k (rev msgs))"
proof -
  from assms have "nat (int (length msgs) - int k) = length msgs - k" by simp
  with assms show ?thesis
    by (simp add: py_slice_opt_def py_slice_def slice_bound_def Let_def rev_take)
qed

lemma descending_prefix_0: "descending_prefix (x # y # T) 0 \<longleftrightarrow> x - y = 1"
  by (simp add: descending_prefix_def numeral_2_eq_2)

lemma descending_prefix_Suc:
  "descending_prefix (x # y # T) (Suc i) \<longleftrightarrow> x - y = 1 \<and> descending_prefix (y # T) i"
  by (simp add: descending_prefix_def numeral_2_eq_2)

lemma filter_descending:
  "x # map snd (filter (\<lambda>p. descending_prefix (x # T) (fst p)) (enumerate 0 T))
     = walk_back (x # T)"
proof (induction T arbitrary: x)
  case Nil
  then show ?case by simp
next
  case (Cons y T)
  have e: "enumerate 0 (y # T) = (0, y) # map (apfst Suc) (enumerate 0 T)"
    by (simp add: enumerate_Suc_eq)
  have "filter (\<lambda>p. descending_prefix (x # y # T) (fst p)) (map (apfst Suc) (enumerate 0 T))
      = map (apfst Suc) (filter (\<lambda>p. descending_prefix (x # y # T) (Suc (fst p))) (enumerate 0 T))"
    by (simp add: filter_map o_def)
  also have "\<dots> = (if x - y = 1
         then map (apfst Suc) (filter (\<lambda>p. descending_prefix (y # T) (fst p)) (enumerate 0 T))
         else [])"
    by (simp add: descending_prefix_Suc)
  finally have shift: "filter (\<lambda>p. descending_prefix (x # y # T) (fst p))
                          (map (apfst Suc) (enumerate 0 T))
      = (if x - y = 1
         then map (apfst Suc) (filter (\<lambda>p. descending_prefix (y # T) (fst p)) (enumerate 0 T))
         else [])" .
  show ?case
    unfolding e using Cons.IH[of y]
    by (simp add: shift descending_prefix_0 o_def del: enumerate_simps)
qed

lemma repair_is_trailing_run:
  assumes "msgs \<noteq> []"
  shows "repair_msgs msgs = Inr (trailing_run msgs)"
proof -
  define x where "x = last msgs"
  define T where "T = rev (butlast msgs)"
  have R: "rev msgs = x # T"
    using assms by (simp add: x_def T_def)
  have "nat (int (length msgs) - 1) = length msgs - 1" by simp
  then have idx: "py_index msgs (- 1) = Inr x"
    using assms by (simp add: py_index_def Let_def x_def last_conv_nth)
  have "filter (\<lambda>(i, j). list_all (\<lambda>d. d = 1) (np_diff (py_slice_opt msgs (- (int i + 2)) None)))
          (enumerate 0 T)
      = filter (\<lambda>p. descending_prefix (x # T) (fst p)) (enumerate 0 T)"
  proof (rule filter_cong[OF refl])
    fix p assume "p \<in> set (enumerate 0 T)"
    then have "fst p < length T" by (auto simp: in_set_enumerate_eq)
    moreover have "length msgs = Suc (length T)"
      using R by (metis length_Cons length_rev)
    ultimately have "fst p + 2 \<le> length msgs" by simp
    then have le: "fst p + 2 \<le> length msgs" .
    have neg: "- (int (fst p) + 2) = - int (fst p + 2)" by simp
    have "py_slice_opt msgs (- (int (fst p) + 2)) None = rev (take (fst p + 2) (rev msgs))"
      unfolding neg by (rule tail_slice) (use le in simp_all)
    then have sl: "py_slice_opt msgs (- (int (fst p) + 2)) None
        = rev (take (fst p + 2) (x # T))"
      by (simp only: R)
    show "(case p of (i, j) \<Rightarrow> list_all (\<lambda>d. d = 1)
                  (np_diff (py_slice_opt msgs (- (int i + 2)) None)))
             = descending_prefix (x # T) (fst p)"
      unfolding split_def sl unit_steps_rev descending_prefix_def ..
  qed
  then have "repair_msgs msgs
      = Inr (rev (x # map snd (filter (\<lambda>p. descending_prefix (x # T) (fst p)) (enumerate 0 T))))"
    unfolding repair_msgs_def bind_def idx T_def[symmetric] by simp
  also have "\<dots> = Inr (trailing_run msgs)"
    unfolding filter_descending trailing_run_def R ..
  finally show ?thesis .
qed


lemma repair_all_trailing_runs:
  assumes "list_all (\<lambda>j. j \<noteq> []) scans"
  shows "\<exists>w1. repair_all scans w = Inr (map trailing_run scans, w1)"
  using assms
proof (induction scans arbitrary: w)
  case Nil
  then show ?case by simp
next
  case (Cons msgs rest)
  then have r: "repair_msgs msgs = Inr (trailing_run msgs)"
    by (simp add: repair_is_trailing_run)
  from Cons obtain w1 where
    "repair_all rest (if length (trailing_run msgs) \<noteq> length msgs
                      then print removing_scan_msgs w else w)
       = Inr (map trailing_run rest, w1)"
    by fastforce
  then show ?case by (simp add: r)
qed

lemma get_vcp_fields:
  assumes "get_vcp self = Inr self1"
  shows "\<exists>v w. self1 = self\<lparr>vcp := v, world := w\<rparr>"
proof -
  have a: "self\<lparr>vcp := Some x\<rparr> = self\<lparr>vcp := Some x, world := world self\<rparr>" for x
    by simp
  from assms show ?thesis
    unfolding get_vcp_def bind_def Let_def
    by (auto split: sum.splits if_splits intro: a)
qed

lemma scan_startend_fields:
  assumes "bzip2_compression a = bzip2_compression b" "bzip2_start_pos a = bzip2_start_pos b"
    "radial_records a = radial_records b" "indices a = indices b"
  shows "scan_startend a = scan_startend b"
  unfolding scan_startend_def fun_eq_iff assms by simp

lemma finish_result:
  assumes "finish self read_mode rsp sel = Inr self1"
  shows "scan_msgs self1 = filter (\<lambda>j. j \<noteq> []) (scan_msgs self)
       \<and> radial_records self1 = radial_records self
       \<and> decode_meta self1 = decode_meta self
       \<and> (decode_meta self \<longrightarrow>
            map_err (scan_startend self1 read_mode (map trailing_run (scan_msgs self1)) rsp sel)
              (map int [0..<length (scan_msgs self1)]) = Inr (scan_startend_pos self1))"
proof -
  define self2 where "self2 = self\<lparr>scan_msgs := filter (\<lambda>j. length j \<noteq> 0) (scan_msgs self),
                                   nscans := int (length (filter (\<lambda>j. length j \<noteq> 0) (scan_msgs self)))\<rparr>"
  define stage where "stage = (if decode_meta self2 then
                 bind (repair_all (scan_msgs self2) (world self2)) (\<lambda>(local_scan_msgs, w).
                 bind (map_err (scan_startend self2 read_mode local_scan_msgs rsp sel)
                         (map int [0..<length local_scan_msgs])) (\<lambda>ranges.
                   Inr (self2\<lparr>scan_startend_pos := ranges, world := w\<rparr>)))
               else Inr self2)"
  have "finish self read_mode rsp sel
      = bind stage (\<lambda>self3. if vcp self3 = None then get_vcp self3 else Inr self3)"
    by (simp add: finish_def Let_def stage_def self2_def)
  with assms obtain self3 where s3: "stage = Inr self3"
    and fin: "(if vcp self3 = None then get_vcp self3 else Inr self3) = Inr self1"
    by (auto simp: bind_def split: sum.splits)
  have ne: "list_all (\<lambda>j. j \<noteq> []) (scan_msgs self2)"
    by (simp add: self2_def list_all_iff)
  from repair_all_trailing_runs[OF ne] obtain w1 where
    rep: "repair_all (scan_msgs self2) (world self2) = Inr (map trailing_run (scan_msgs self2), w1)"
    by blast
  have s3_fields: "scan_msgs self3 = scan_msgs self2 \<and> radial_records self3 = radial_records self
      \<and> decode_meta self3 = decode_meta self \<and> bzip2_compression self3 = bzip2_compression self2
      \<and> bzip2_start_pos self3 = bzip2_start_pos self2 \<and> indices self3 = indices self2
      \<and> (decode_meta self \<longrightarrow>
            map_err (scan_startend self2 read_mode (map trailing_run (scan_msgs self2)) rsp sel)
              (map int [0..<length (scan_msgs self2)]) = Inr (scan_startend_pos self3))"
    using s3 unfolding stage_def bind_def rep
    by (auto simp: self2_def split: if_splits sum.splits)
  from fin obtain v w where s1: "self1 = self3\<lparr>vcp := v, world := w\<rparr>"
  proof (cases "vcp self3 = None")
    case True
    with fin have "get_vcp self3 = Inr self1" by simp
    from get_vcp_fields[OF this] that show ?thesis by blast
  next
    case False
    with fin have "self1 = self3\<lparr>vcp := vcp self3, world := world self3\<rparr>" by simp
    with that show ?thesis by blast
  qed
  have eq: "scan_startend self1 = scan_startend self2"
    by (rule scan_startend_fields) (simp_all add: s1 s3_fields, simp add: self2_def)
  have sm: "scan_msgs self1 = scan_msgs self2" by (simp add: s1 s3_fields)
  have sp: "scan_startend_pos self1 = scan_startend_pos self3" by (simp add: s1)
  have c1: "scan_msgs self1 = filter (\<lambda>j. j \<noteq> []) (scan_msgs self)"
    unfolding sm by (simp add: self2_def)
  have c2: "radial_records self1 = radial_records self"
    using s3_fields by (simp add: s1)
  have c3: "decode_meta self1 = decode_meta self"
    using s3_fields by (simp add: s1)
  have c4: "decode_meta self \<longrightarrow>
            map_err (scan_startend self1 read_mode (map trailing_run (scan_msgs self1)) rsp sel)
              (map int [0..<length (scan_msgs self1)]) = Inr (scan_startend_pos self1)"
    unfolding eq sm sp using s3_fields by blast
  from c1 c2 c3 c4 show ?thesis by blast
qed


lemma decode_pass_groups:
  assumes "decode_pass env self f read_mode moments = Some (Inr (self1, rsp, sel, reopen))"
  shows "\<exists>elev_nums.
           map_err (\<lambda>m. msg_header_int m ''elevation_number'') (radial_records self1)
             = Inr elev_nums
           \<and> scan_msgs self1 = group_by_elevation elev_nums"
  using assms
  by (auto simp: decode_pass_def group_scans_def bind_def
      split: sum.splits option.splits prod.splits)

text \<open>
  Claim C4, as stated: after a decode in metadata mode, \<open>scan_msgs[i]\<close> holds only the
  trailing run of consecutive indices.  Decoding the file of two concatenated volumes in
  mode \<open>all-meta\<close> leaves \<open>scan_msgs = [[0, 2], [1]]\<close>: the first scan keeps index 0 of the
  earlier volume, while its trailing run is \<open>[2]\<close>.
\<close>

theorem dual_volume_keeps_all_indices:
  "scan_msgs_of (decode_file dual_env (new_decoder initial_pstate) (FileName ''dual.gz'')
                   ''all-meta'' MNone) = Some (Inr [[0, 2], [1]])
   \<and> map trailing_run [[0, 2], [1]] = [[2], [1]]"
  by code_simp

text \<open>
  Claim C4, amended: after every decode that returns, \<open>scan_msgs\<close> holds for each elevation
  number that occurs all indices of the radial records with that elevation number (the
  earlier volume's too), and in metadata mode \<open>scan_startend_pos\<close> is the list of byte
  ranges computed from the longest trailing runs of consecutive indices of these lists,
  with the mode and the locals \<open>radial_records_start_pos\<close> and \<open>indices_select\<close> of the last
  pass of the decode.
\<close>

theorem decode_file_scan_msgs:
  assumes "decode_file env self f read_mode moments = Some (Inr self1)"
  shows "\<exists>mode self0 rsp sel elev_nums.
        final_pass env self f read_mode moments = (mode, Some (Inr (self0, rsp, sel, False)))
      \<and> map_err (\<lambda>m. msg_header_int m ''elevation_number'') (radial_records self1)
          = Inr elev_nums
      \<and> scan_msgs self0 = group_by_elevation elev_nums
      \<and> scan_msgs self1 = filter (\<lambda>j. j \<noteq> []) (group_by_elevation elev_nums)
      \<and> (decode_meta self1 \<longrightarrow>
            map_err (scan_startend self1 mode (map trailing_run (scan_msgs self1)) rsp sel)
              (map int [0..<length (scan_msgs self1)]) = Inr (scan_startend_pos self1))"
proof -
  obtain mode r where fp: "final_pass env self f read_mode moments = (mode, r)"
    by (cases "final_pass env self f read_mode moments")
  from assms obtain self0 rsp sel reopen where
    r: "r = Some (Inr (self0, rsp, sel, reopen))"
    and fin: "finish self0 mode rsp sel = Inr self1"
    unfolding decode_file_final_pass fp
    by (auto split: option.splits sum.splits prod.splits)
  from final_pass_Inr[OF fp[unfolded r]] obtain self' f' moments' where
    nr: "\<not> reopen"
    and pass: "decode_pass env self' f' mode moments' = Some (Inr (self0, rsp, sel, reopen))"
    by blast
  from decode_pass_groups[OF pass] obtain elev_nums where
    e: "map_err (\<lambda>m. msg_header_int m ''elevation_number'') (radial_records self0) = Inr elev_nums"
    and g: "scan_msgs self0 = group_by_elevation elev_nums"
    by blast
  from finish_result[OF fin] have
    f1: "scan_msgs self1 = filter (\<lambda>j. j \<noteq> []) (scan_msgs self0)"
    and f2: "radial_records self1 = radial_records self0"
    and f3: "decode_meta self1 = decode_meta self0"
    and f4: "decode_meta self0 \<longrightarrow>
            map_err (scan_startend self1 mode (map trailing_run (scan_msgs self1)) rsp sel)
              (map int [0..<length (scan_msgs self1)]) = Inr (scan_startend_pos self1)"
    by auto
  from fp r nr e g f1 f2 f3 f4 show ?thesis by auto
qed

theorem decode_file_scan_msgs_witness:
  "\<exists>self1 self0.
       decode_file dual_env (new_decoder initial_pstate) (FileName ''dual.gz'') ''all-meta'' MNone
         = Some (Inr self1)
     \<and> final_pass dual_env (new_decoder initial_pstate) (FileName ''dual.gz'') ''all-meta'' MNone
         = (''all-meta'', Some (Inr (self0, [0, 88, 176], [], False)))
     \<and> scan_msgs self1 = [[0, 2], [1]]
     \<and> map trailing_run (scan_msgs self1) = [[2], [1]]
     \<and> decode_meta self1
     \<and> scan_startend_pos self1 = [(176, Some 88), (88, None)]
     \<and> map_err (scan_startend self1 ''all-meta'' (map trailing_run (scan_msgs self1))
                  [0, 88, 176] [])
          (map int [0..<length (scan_msgs self1)]) = Inr (scan_startend_pos self1)
     \<and> map_err (scan_startend self1 ''all-meta'' (scan_msgs self1) [0, 88, 176] [])
          (map int [0..<length (scan_msgs self1)]) = Inr [(0, Some 88), (88, None)]"
proof -
  let ?run = "decode_file dual_env (new_decoder initial_pstate) (FileName ''dual.gz'')
                ''all-meta'' MNone"
  let ?fp = "final_pass dual_env (new_decoder initial_pstate) (FileName ''dual.gz'')
               ''all-meta'' MNone"
  have "map_option (map_sum id (\<lambda>d. (scan_msgs d, scan_startend_pos d, decode_meta d,
            map_err (scan_startend d ''all-meta'' (scan_msgs d) [0, 88, 176] [])
              (map int [0..<length (scan_msgs d)])))) ?run
        = Some (Inr ([[0, 2], [1]], [(176, Some 88), (88, None)], True,
                     Inr [(0, Some 88), (88, None)]))"
    by code_simp
  then obtain self1 where run: "?run = Some (Inr self1)"
    and sm: "scan_msgs self1 = [[0, 2], [1]]"
    and sp: "scan_startend_pos self1 = [(176, Some 88), (88, None)]"
    and dm: "decode_meta self1"
    and un: "map_err (scan_startend self1 ''all-meta'' (scan_msgs self1) [0, 88, 176] [])
              (map int [0..<length (scan_msgs self1)]) = Inr [(0, Some 88), (88, None)]"
    by (cases ?run) (auto simp: map_sum_def split: sum.splits)
  have ps: "pass_summary ?fp = (''all-meta'', Some (Inr ([[0, 2], [1]], [0, 88, 176], [], False)))"
    by code_simp
  have tr: "map trailing_run [[0, 2], [1 :: int]] = [[2], [1]]"
    by code_simp
  from decode_file_scan_msgs[OF run] dm obtain mode self0 rsp sel where
    fp: "?fp = (mode, Some (Inr (self0, rsp, sel, False)))"
    and ranges: "map_err (scan_startend self1 mode (map trailing_run (scan_msgs self1)) rsp sel)
              (map int [0..<length (scan_msgs self1)]) = Inr (scan_startend_pos self1)"
    by blast
  from ps fp have m: "mode = ''all-meta''" "rsp = [0, 88, 176]" "sel = []"
    by (simp_all add: pass_summary_def)
  have c2: "?fp = (''all-meta'', Some (Inr (self0, [0, 88, 176], [], False)))"
    using fp unfolding m .
  have c4: "map trailing_run (scan_msgs self1) = [[2], [1]]"
    unfolding sm by (rule tr)
  have c7: "map_err (scan_startend self1 ''all-meta'' (map trailing_run (scan_msgs self1))
                  [0, 88, 176] [])
          (map int [0..<length (scan_msgs self1)]) = Inr (scan_startend_pos self1)"
    using ranges unfolding m .
  show ?thesis
    by (intro exI[of _ self1] exI[of _ self0] conjI) (fact run c2 sm c4 dm sp c7 un)+
qed

subsection \<open>Ray times\<close>

lemma py_index_0: "py_index xs 0 = Inr v \<Longrightarrow> xs \<noteq> [] \<and> v = hd xs"
  by (cases xs) (auto simp: py_index_def split: if_splits)

lemma pow2_powi: "pow2 e = 2 powi e"
  by (simp add: pow2_def power_int_def field_simps)

lemma pow2_pos: "0 < pow2 e"
  by (simp add: pow2_powi)

lemma pow2_mono: "a \<le> b \<Longrightarrow> pow2 a \<le> pow2 b"
  by (simp add: pow2_powi power_int_increasing)

lemma pow2_nat: "pow2 (int n) = 2 ^ n"
  by (simp add: pow2_def)

lemma exponent_le:
  assumes "0 < x"
  shows "pow2 (exponent x) \<le> x"
proof -
  obtain p q where pq: "quotient_of x = (p, q)" by (cases "quotient_of x")
  from quotient_of_denom_pos[OF pq] have q: "0 < q" .
  from quotient_of_div[OF pq] have x: "x = of_int p / of_int q" .
  with assms q have p: "0 < p" by (simp add: zero_less_divide_iff)
  let ?e0 = "bitlen p - bitlen q"
  show ?thesis
  proof (cases "pow2 ?e0 \<le> x")
    case True
    then show ?thesis by (simp add: exponent_def pq)
  next
    case False
    from bitlen_bounds[OF p] have lo: "2 ^ nat (bitlen p - 1) \<le> p" by simp
    from bitlen_bounds[OF q] have hi: "q < 2 ^ nat (bitlen q)" by simp
    have bp: "0 < bitlen p"
    proof (rule ccontr)
      assume "\<not> 0 < bitlen p"
      then have "nat (bitlen p) = 0" by simp
      with bitlen_bounds[OF p] p show False by simp
    qed
    have bq: "0 \<le> bitlen q" by (rule bitlen_nonneg)
    have "(2 :: rat) powi (bitlen p - 1) \<le> of_int p"
    proof -
      have "(2 :: rat) ^ nat (bitlen p - 1) \<le> of_int p"
        using lo by (metis of_int_le_iff of_int_numeral of_int_power)
      with bp show ?thesis by (simp add: power_int_def)
    qed
    moreover have "of_int q \<le> (2 :: rat) powi (bitlen q)"
    proof -
      have "of_int q \<le> (2 :: rat) ^ nat (bitlen q)"
        using hi by (metis less_imp_le of_int_le_iff of_int_numeral of_int_power)
      with bq show ?thesis by (simp add: power_int_def)
    qed
    moreover have "(2 :: rat) powi (?e0 - 1) = 2 powi (bitlen p - 1) / 2 powi (bitlen q)"
      by (simp add: power_int_diff)
    moreover have "0 < (of_int q :: rat)" "0 \<le> (2 :: rat) powi (bitlen p - 1)"
      using q by simp_all
    ultimately have "(2 :: rat) powi (?e0 - 1) \<le> of_int p / of_int q"
      by (simp only: frac_le)
    moreover from False have "exponent x = ?e0 - 1"
      by (simp add: exponent_def pq)
    ultimately show ?thesis by (simp add: pow2_powi x)
  qed
qed

lemma round_half_even_error: "\<bar>of_int (round_half_even y) - y\<bar> \<le> 1 / 2"
proof -
  have "of_int \<lfloor>y\<rfloor> \<le> y" "y < of_int \<lfloor>y\<rfloor> + 1" by linarith+
  then show ?thesis
    by (auto simp: round_half_even_def Let_def abs_le_iff)
qed

lemma round_half_even_of_int [simp]: "round_half_even (of_int n) = n"
  by (simp add: round_half_even_def)

lemma round64_error:
  assumes "0 < x" and "x < pow2 n"
  shows "\<bar>round64 x - x\<bar> \<le> pow2 (max (n - 53) (- 1074)) / 2"
proof -
  let ?u = "pow2 (max (exponent \<bar>x\<bar> - 52) (- 1074))"
  from assms have ax: "\<bar>x\<bar> = x" by simp
  from exponent_le[OF assms(1)] assms(2) have "pow2 (exponent x) < pow2 n" by simp
  then have "exponent x < n"
    by (metis leD leI pow2_mono)
  then have ub: "?u \<le> pow2 (max (n - 53) (- 1074))"
    unfolding ax by (intro pow2_mono) simp
  have u: "0 < ?u" by (rule pow2_pos)
  have "of_int (round_half_even (x / ?u)) * ?u - x
          = (of_int (round_half_even (x / ?u)) - x / ?u) * ?u"
    using u by (simp add: field_simps)
  then have "\<bar>of_int (round_half_even (x / ?u)) * ?u - x\<bar>
        = \<bar>of_int (round_half_even (x / ?u)) - x / ?u\<bar> * ?u"
    using u by (simp add: abs_mult)
  also have "\<dots> \<le> 1 / 2 * ?u"
    using round_half_even_error[of "x / ?u"] u by (intro mult_right_mono) simp_all
  finally have "\<bar>round64 x - x\<bar> \<le> ?u / 2"
    using assms(1) by (simp add: round64_def Let_def)
  with ub show ?thesis by simp
qed

lemma round64_of_int:
  assumes "\<bar>n\<bar> < 2 ^ 53"
  shows "round64 (of_int n) = of_int n"
proof (cases "n = 0")
  case True
  then show ?thesis by (simp add: round64_def)
next
  case False
  let ?x = "of_int n :: rat"
  let ?k = "max (exponent \<bar>?x\<bar> - 52) (- 1074)"
  from False have pos: "0 < \<bar>?x\<bar>" by simp
  have "\<bar>?x\<bar> < pow2 53"
  proof -
    have "(of_int \<bar>n\<bar> :: rat) < of_int (2 ^ 53)"
      using assms by (simp only: of_int_less_iff)
    then show ?thesis by (simp add: pow2_def)
  qed
  with exponent_le[OF pos] have "pow2 (exponent \<bar>?x\<bar>) < pow2 53" by simp
  then have "exponent \<bar>?x\<bar> < 53" by (metis leD leI pow2_mono)
  then have k: "?k \<le> 0" by simp
  then have inv: "1 / pow2 ?k = of_int (2 ^ nat (- ?k))"
    unfolding pow2_def by (auto simp: le_less)
  have "?x / pow2 ?k = ?x * (1 / pow2 ?k)" by simp
  then have "?x / pow2 ?k = of_int (n * 2 ^ nat (- ?k))"
    unfolding inv by simp
  then have "round_half_even (?x / pow2 ?k) = n * 2 ^ nat (- ?k)"
    by (simp only: round_half_even_of_int)
  then have "of_int (round_half_even (?x / pow2 ?k)) * pow2 ?k = ?x * (of_int (2 ^ nat (- ?k)) * pow2 ?k)"
    by simp
  also have "of_int (2 ^ nat (- ?k)) * pow2 ?k = (1 :: rat)"
    using inv pow2_pos[of ?k] by (simp add: field_simps)
  finally show ?thesis using False by (simp add: round64_def Let_def)
qed

lemma truncate_quotient64:
  assumes "0 \<le> m" and "m < 2 ^ 32"
  shows "truncate (round64 (round64 (of_int m) / 1000)) = m div 1000"
proof -
  have "\<bar>m\<bar> < 2 ^ 53" using assms by simp
  then have conv: "round64 (of_int m) = of_int m" by (rule round64_of_int)
  let ?x = "of_int m / 1000 :: rat"
  show ?thesis
  proof (cases "m = 0")
    case True
    then show ?thesis by (simp add: conv round64_def truncate_def)
  next
    case False
    with assms have xpos: "0 < ?x" by simp
    have "?x < pow2 32"
    proof -
      have "(of_int m :: rat) < of_int (2 ^ 32)"
        using assms(2) by (simp only: of_int_less_iff)
      then show ?thesis by (simp add: pow2_def)
    qed
    from round64_error[OF xpos this] have err: "\<bar>round64 ?x - ?x\<bar> \<le> 1 / 4194304"
      by (simp add: pow2_def)
    let ?q = "m div 1000" and ?r = "m mod 1000"
    have m: "m = ?q * 1000 + ?r" by simp
    have "(of_int (q * 1000 + r) :: rat) / 1000 = of_int q + of_int r / 1000" for q r :: int
      by simp
    from this[of ?q ?r] have x: "?x = of_int ?q + of_int ?r / 1000"
      by (simp only: div_mult_mod_eq)
    have r: "0 \<le> ?r" "?r \<le> 999" by simp_all
    show ?thesis
    proof (cases "?r = 0")
      case True
      with x have "?x = of_int ?q" by simp
      moreover have "\<bar>?q\<bar> < 2 ^ 53" using assms by (simp add: abs_if) linarith
      ultimately have "round64 ?x = of_int ?q" by (simp add: round64_of_int)
      moreover have "0 \<le> ?q" using assms by simp
      ultimately show ?thesis by (simp add: conv truncate_def)
    next
      case False
      with r have "1 \<le> ?r" by linarith
      then have lo: "(1 :: rat) / 1000 \<le> of_int ?r / 1000" by simp
      from r have hi: "of_int ?r / 1000 \<le> (999 :: rat) / 1000" by simp
      from err have e1: "?x - 1 / 4194304 \<le> round64 ?x"
        and e2: "round64 ?x \<le> ?x + 1 / 4194304"
        by linarith+
      have a: "of_int ?q \<le> round64 ?x"
        using e1 lo unfolding x by simp
      have b: "round64 ?x < of_int ?q + 1"
        using e2 hi unfolding x by simp
      from a b have "\<lfloor>round64 ?x\<rfloor> = ?q" by (simp add: floor_unique)
      moreover have "0 \<le> round64 ?x"
        using a assms by (smt (verit) of_int_0_le_iff pos_imp_zdiv_nonneg_iff order_trans)
      ultimately show ?thesis by (simp add: conv truncate_def not_less)
    qed
  qed
qed


lemma truncate_secs_of:
  "0 \<le> m \<Longrightarrow> m < 2 ^ 32 \<Longrightarrow> truncate (secs_of m) = m div 1000"
  unfolding secs_of_def float_of_int_def by (rule truncate_quotient64)

lemma round64_nonneg:
  assumes "0 \<le> x"
  shows "0 \<le> round64 x"
proof (cases "x = 0")
  case True
  then show ?thesis by (simp add: round64_def)
next
  case False
  let ?u = "pow2 (max (exponent \<bar>x\<bar> - 52) (- 1074))"
  have u: "0 < ?u" by (rule pow2_pos)
  with assms have "0 \<le> x / ?u" by simp
  then have "0 \<le> \<lfloor>x / ?u\<rfloor>" by simp
  then have "0 \<le> round_half_even (x / ?u)"
    by (simp add: round_half_even_def Let_def)
  with u False show ?thesis by (simp add: round64_def Let_def)
qed

lemma secs_of_nonneg: "0 \<le> m \<Longrightarrow> 0 \<le> secs_of m"
  unfolding secs_of_def float_of_int_def
  by (intro round64_nonneg divide_nonneg_nonneg) simp_all

text \<open>
  Claim C7, as stated: the start time includes the fraction of \<open>collect_ms[0] / 1000\<close>.  For
  a first ray collected on day 1 at 1500 ms, \<open>get_times\<close> gives 1 s after the epoch
  (1000000 microseconds), the claim 1.5 s.
\<close>

theorem get_times_drops_fraction:
  "get_times two_rays None = Inr (1000000, [1 / 2, 345597 / 4]) \<and>
   claimed_start_time 1 1500 = 1500000"
  by code_simp

text \<open>
  Claim C7, amended: whenever \<open>get_times\<close> returns, with \<open>days\<close> and \<open>ms\<close> the collect
  dates and milliseconds of the rays of the requested scans: for \<open>0 \<le> collect_ms[0] < 2^32\<close>
  the start time is the epoch plus \<open>days[0] - 1\<close> days plus the whole seconds of
  \<open>collect_ms[0] / 1000\<close> (the fraction is dropped), and for \<open>0 \<le> collect_ms[0]\<close> the
  offsets of the rays are \<open>secs - floor(secs[0]) + (days - days[0]) * 86400\<close> with
  \<open>secs = ms / 1000\<close>, every operation rounded to a 64-bit float.  For a first ray at
  86399999 ms the offset is 68650757259 / 68719476736 (0.9989999999961583), not 999 / 1000.
\<close>

theorem get_times_whole_seconds:
  assumes "get_times self scans = Inr (start, offsets)"
  shows "\<exists>days ms.
           radial_array self (all_scans self scans) ''collect_date'' = Inr days
         \<and> radial_array self (all_scans self scans) ''collect_ms'' = Inr ms
         \<and> days \<noteq> [] \<and> ms \<noteq> []
         \<and> (0 \<le> hd ms \<and> hd ms < 2 ^ 32
               \<longrightarrow> start = whole_seconds_start_time (hd days) (hd ms))
         \<and> (0 \<le> hd ms \<longrightarrow> offsets = ray_offsets days ms)"
proof -
  from assms obtain days ms day0 sec0 where
    d: "radial_array self (all_scans self scans) ''collect_date'' = Inr days"
    and m: "radial_array self (all_scans self scans) ''collect_ms'' = Inr ms"
    and d0: "py_index days 0 = Inr day0"
    and s0: "py_index (map secs_of ms) 0 = Inr sec0"
    and st: "start = ((day0 - 1) * 86400 + truncate sec0) * 1000000"
    and ti: "offsets = map (\<lambda>(s, d). round64 (round64 (s - float_of_int (truncate sec0))
                                         + float_of_int ((d - day0) * 86400)))
                  (zip (map secs_of ms) days)"
    unfolding get_times_def Let_def bind_def secs_of_def
    by (auto split: sum.splits if_splits)
  from py_index_0[OF d0] have dn: "days \<noteq> []" and day0: "day0 = hd days" by auto
  from py_index_0[OF s0] have mn: "ms \<noteq> []" and sec0: "sec0 = secs_of (hd ms)"
    by (auto simp: hd_map)
  have c1: "start = whole_seconds_start_time (hd days) (hd ms)"
    if "0 \<le> hd ms \<and> hd ms < 2 ^ 32"
  proof -
    from that truncate_secs_of[of "hd ms"] have "truncate sec0 = hd ms div 1000"
      by (simp add: sec0)
    with st day0 show ?thesis by (simp add: whole_seconds_start_time_def)
  qed
  have c2: "offsets = ray_offsets days ms" if nn: "0 \<le> hd ms"
  proof -
    from secs_of_nonneg[OF nn] have "truncate sec0 = \<lfloor>secs_of (hd ms)\<rfloor>"
      by (simp add: sec0 truncate_def not_less)
    then show ?thesis
      unfolding ti ray_offsets_def day0
      by (simp add: zip_map1 split_def)
  qed
  from d m dn mn c1 c2 show ?thesis by blast
qed

theorem get_times_whole_seconds_witness:
  "get_times late_rays None = Inr (86399000000, [68650757259 / 68719476736, 5 / 4])
   \<and> whole_seconds_start_time 1 86399999 = 86399000000
   \<and> ray_offsets [1, 2] [86399999, 250] = [68650757259 / 68719476736, 5 / 4]
   \<and> exact_ray_offsets [1, 2] [86399999, 250] = [999 / 1000, 5 / 4]
   \<and> (\<exists>days ms.
         radial_array late_rays (all_scans late_rays None) ''collect_date'' = Inr days
       \<and> radial_array late_rays (all_scans late_rays None) ''collect_ms'' = Inr ms
       \<and> 0 \<le> hd ms \<and> hd ms < 2 ^ 32
       \<and> 86399000000 = whole_seconds_start_time (hd days) (hd ms)
       \<and> [68650757259 / 68719476736, 5 / 4] = ray_offsets days ms)"
proof -
  have run: "get_times late_rays None = Inr (86399000000, [68650757259 / 68719476736, 5 / 4])"
    by code_simp
  have w: "whole_seconds_start_time 1 86399999 = 86399000000"
    by code_simp
  have r: "ray_offsets [1, 2] [86399999, 250] = [68650757259 / 68719476736, 5 / 4]"
    by code_simp
  have x: "exact_ray_offsets [1, 2] [86399999, 250] = [999 / 1000, 5 / 4]"
    by code_simp
  have ms: "radial_array late_rays (all_scans late_rays None) ''collect_ms'' = Inr [86399999, 250]"
    by code_simp
  from get_times_whole_seconds[OF run] obtain days ms where
    a: "radial_array late_rays (all_scans late_rays None) ''collect_date'' = Inr days"
    and b: "radial_array late_rays (all_scans late_rays None) ''collect_ms'' = Inr ms"
    and c: "0 \<le> hd ms \<and> hd ms < 2 ^ 32
              \<longrightarrow> 86399000000 = whole_seconds_start_time (hd days) (hd ms)"
    and e: "0 \<le> hd ms \<longrightarrow> [68650757259 / 68719476736, 5 / 4] = ray_offsets days ms"
    by blast
  from b ms have "ms = [86399999, 250]" by simp
  then have h: "0 \<le> hd ms \<and> hd ms < 2 ^ 32" by simp
  with a b c e run w r x show ?thesis by blast
qed


subsection \<open>The depth of the recursion of \<open>decode_file\<close>\<close>



subsection \<open>The array of \<open>get_data\<close>\<close>




lemma first_ray_world [simp]:
  "first_ray (self\<lparr>world := st\<rparr>) scan = first_ray self scan"
  by (simp add: first_ray_def)


lemma find_scale_world [simp]:
  "find_scale (self\<lparr>world := st\<rparr>) moment scans = find_scale self moment scans"
  by (induction scans) (simp_all cong: if_cong)












end
